theory Spec2Isabelle
  imports Main "HOL-Library.Word"
begin

section \<open>JavaScript values\<close>

text \<open>
  The proof object that travels in the \<^verbatim>\<open>X-Payment-Proof\<close> header is a flat JSON
  object. Its field values are modelled by the JavaScript values that occur in it:
  \<^verbatim>\<open>undefined\<close>, \<^verbatim>\<open>null\<close>, booleans, integer-valued numbers, \<^verbatim>\<open>NaN\<close>
  and strings. Fractional numbers, arrays and nested objects do not occur in a proof and are
  left out.
\<close>

datatype jsval = JUndefined | JNull | JBool bool | JNum int | JNaN | JStr string

text \<open>The truthiness that \<^verbatim>\<open>!v\<close>, \<^verbatim>\<open>v || d\<close> and \<^verbatim>\<open>v ? a : b\<close> test.\<close>

fun truthy :: "jsval \<Rightarrow> bool" where
  "truthy JUndefined = False"
| "truthy JNull = False"
| "truthy (JBool b) = b"
| "truthy (JNum n) = (n \<noteq> 0)"
| "truthy JNaN = False"
| "truthy (JStr s) = (s \<noteq> [])"

text \<open>An object is its list of own properties; reading a missing key gives \<^verbatim>\<open>undefined\<close>.\<close>

type_synonym jsobj = "(string \<times> jsval) list"

definition getProp :: "jsobj \<Rightarrow> string \<Rightarrow> jsval" where
  "getProp obj k = (case map_of obj k of None \<Rightarrow> JUndefined | Some v \<Rightarrow> v)"

text \<open>
  \<^verbatim>\<open>String.prototype.toLowerCase\<close> on the ASCII strings the protocol uses (addresses,
  token and chain names).
\<close>

definition lowerChar :: "char \<Rightarrow> char" where
  "lowerChar c =
     (case map_of (zip ''ABCDEFGHIJKLMNOPQRSTUVWXYZ'' ''abcdefghijklmnopqrstuvwxyz'') c of
        None \<Rightarrow> c
      | Some d \<Rightarrow> d)"

definition toLowerCase :: "string \<Rightarrow> string" where
  "toLowerCase s = map lowerChar s"

text \<open>\<^verbatim>\<open>s.split(c)\<close> for a one-character separator: never empty, keeps empty pieces.\<close>

fun split_on :: "char \<Rightarrow> string \<Rightarrow> string list" where
  "split_on c [] = [[]]"
| "split_on c (x # xs) =
     (if x = c then [] # split_on c xs
      else (case split_on c xs of [] \<Rightarrow> [[x]] | p # ps \<Rightarrow> (x # p) # ps))"

text \<open>
  The colon-separated parts of a challenge string's path segment, the text before the first
  question mark: what both challenge parsers destructure.
\<close>

definition pathParts :: "string \<Rightarrow> string list" where
  "pathParts s = split_on CHR '':'' (hd (split_on CHR ''?'' s))"

section \<open>The proof header and \<^verbatim>\<open>decodeProof\<close> (src/src/middleware.js)\<close>

text \<open>
  \<^verbatim>\<open>Buffer.from(h, 'base64').toString('utf-8')\<close> and \<^verbatim>\<open>JSON.parse\<close> belong to the
  platform. A header string is modelled by what the two make of it: a JSON object, the JSON
  value \<^verbatim>\<open>null\<close>, another JSON value (a number, string, boolean or array, on which every
  required key reads \<^verbatim>\<open>undefined\<close>), or text on which \<^verbatim>\<open>JSON.parse\<close> throws.
\<close>

datatype header = B64_JSON_object jsobj | B64_JSON_null | B64_JSON_other | B64_not_JSON

text \<open>
  \<^verbatim>\<open>JSON.stringify\<close> drops the keys whose value is \<^verbatim>\<open>undefined\<close> and writes
  \<^verbatim>\<open>NaN\<close> as \<^verbatim>\<open>null\<close>; the other values survive the trip through
  \<^verbatim>\<open>JSON.parse\<close> unchanged.
\<close>

fun json_value :: "jsval \<Rightarrow> jsval" where
  "json_value JNaN = JNull"
| "json_value v = v"

definition JSON_stringify_base64 :: "jsobj \<Rightarrow> header" where
  "JSON_stringify_base64 obj =
     B64_JSON_object (map (\<lambda>(k, v). (k, json_value v)) (filter (\<lambda>(k, v). v \<noteq> JUndefined) obj))"

text \<open>
  Every throw inside \<^verbatim>\<open>decodeProof\<close> is caught and rethrown as
  \<^verbatim>\<open>Invalid proof format: <message>\<close>; the cause is the inner message.
\<close>

datatype cause = MissingRequiredField string | SyntaxError | TypeError

datatype decode_error = InvalidProofFormat cause

definition required :: "string list" where
  "required = [''txHash'', ''token'', ''recipient'', ''amount'', ''timestamp'', ''nonce'', ''signature'']"

text \<open>The \<^verbatim>\<open>for (const field of required)\<close> loop: the first falsy field throws.\<close>

fun firstMissing :: "jsobj \<Rightarrow> string list \<Rightarrow> string option" where
  "firstMissing proof [] = None"
| "firstMissing proof (field # rest) =
     (if \<not> truthy (getProp proof field) then Some field else firstMissing proof rest)"

definition decodeProof :: "header \<Rightarrow> decode_error + jsobj" where
  "decodeProof proofHeader =
     (case proofHeader of
        B64_not_JSON \<Rightarrow> Inl (InvalidProofFormat SyntaxError)
      | B64_JSON_null \<Rightarrow> Inl (InvalidProofFormat TypeError)
      | B64_JSON_other \<Rightarrow> Inl (InvalidProofFormat (MissingRequiredField ''txHash''))
      | B64_JSON_object proof \<Rightarrow>
          (case firstMissing proof required of
             Some field \<Rightarrow> Inl (InvalidProofFormat (MissingRequiredField field))
           | None \<Rightarrow> Inr proof))"

section \<open>Library functions of ethers\<close>

text \<open>
  \<^verbatim>\<open>ethers.getAddress\<close> validates an address string and returns it in checksummed
  form, or throws. It needs Keccak and belongs to the library, so the functions below take it
  as a parameter \<open>getAddress\<close>, with \<open>None\<close> for a throw.

  \<^verbatim>\<open>ethers.parseUnits(value, decimals)\<close> reads a decimal string as an integer number
  of minor units: an optional minus sign, digits, an optional point and digits, at least one
  digit in all; fraction digits beyond \<open>decimals\<close> must be zeros, and a shorter fraction
  is padded with zeros. The library holds the number in 512 bits with a sign: a result below
  \<open>- (2 ^ 511)\<close> or not below \<open>2 ^ 511\<close> is an overflow. Anything else throws.
\<close>

definition isDigit :: "char \<Rightarrow> bool" where
  "isDigit c = (c \<in> set ''0123456789'')"

definition digitVal :: "char \<Rightarrow> nat" where
  "digitVal c = (case map_of (zip ''0123456789'' [0, 1, 2, 3, 4, 5, 6, 7, 8, 9]) c of
                   None \<Rightarrow> 0 | Some d \<Rightarrow> d)"

definition digitsVal :: "string \<Rightarrow> nat" where
  "digitsVal ds = foldl (\<lambda>acc c. 10 * acc + digitVal c) 0 ds"

definition parseUnits :: "string \<Rightarrow> nat \<Rightarrow> int option" where
  "parseUnits v decimals =
     (let neg = (v \<noteq> [] \<and> hd v = CHR ''-'');
          body = (if neg then tl v else v);
          whole = takeWhile isDigit body;
          after = dropWhile isDigit body;
          frac = (if after \<noteq> [] \<and> hd after = CHR ''.'' then tl after else after);
          kept = take decimals frac;
          units = (if neg then - 1 else 1) *
                  int (digitsVal whole * 10 ^ decimals +
                       digitsVal kept * 10 ^ (decimals - length kept))
      in if whole @ frac = [] \<or> \<not> list_all isDigit frac then None
         else if \<not> list_all (\<lambda>c. c = CHR ''0'') (drop decimals frac) then None
         else if units < - (2 ^ 511) \<or> 2 ^ 511 \<le> units then None
         else Some units)"

definition parseEther :: "string \<Rightarrow> int option" where
  "parseEther ether = parseUnits ether 18"

text \<open>\<^verbatim>\<open>bigint.toString()\<close>: the decimal digits of an integer.\<close>

fun showNat :: "nat \<Rightarrow> string" where
  "showNat n =
     (if n < 10 then [''0123456789'' ! n] else showNat (n div 10) @ [''0123456789'' ! (n mod 10)])"

definition showInt :: "int \<Rightarrow> string" where
  "showInt i = (if i < 0 then CHR ''-'' # showNat (nat (- i)) else showNat (nat i))"

section \<open>The client's challenge and proof (src/src/client.js)\<close>

text \<open>
  \<^verbatim>\<open>new URLSearchParams(rest).get(name)\<close>: the pairs between \<^verbatim>\<open>&\<close>, each cut at
  its first \<^verbatim>\<open>=\<close>; the first pair with the name wins, no pair gives \<^verbatim>\<open>null\<close>. An
  \<^verbatim>\<open>undefined\<close> query has no pairs. Percent-decoding is left out.
\<close>

definition URLSearchParams :: "string option \<Rightarrow> (string \<times> string) list" where
  "URLSearchParams rest =
     (case rest of
        None \<Rightarrow> []
      | Some q \<Rightarrow>
          map (\<lambda>p. (takeWhile (\<lambda>c. c \<noteq> CHR ''='') p, drop 1 (dropWhile (\<lambda>c. c \<noteq> CHR ''='') p)))
              (filter (\<lambda>p. p \<noteq> []) (split_on CHR ''&'' q)))"

text \<open>Array destructuring: the element at a position, \<^verbatim>\<open>undefined\<close> past the end.\<close>

definition element :: "'a list \<Rightarrow> nat \<Rightarrow> 'a option" where
  "element xs i = (if i < length xs then Some (xs ! i) else None)"

datatype js_error = JsTypeError | InvalidAddress | InvalidUnits | TokenAddressNotFound string string

text \<open>
  The fields of \<^verbatim>\<open>PaymentChallenge\<close> that the functions below read. The recipient is a
  JavaScript value: \<^verbatim>\<open>parse\<close> may leave it \<^verbatim>\<open>undefined\<close>.
\<close>

record PaymentChallenge =
  raw :: string
  token :: string
  chain :: string
  recipient :: jsval
  amount :: string

text \<open>
  \<^verbatim>\<open>PaymentChallenge.parse\<close>. Reading \<^verbatim>\<open>chain.toLowerCase()\<close> of a missing second
  part is a TypeError. A recipient that \<open>getAddress\<close> rejects, a missing one included, is
  stored as it is (the \<^verbatim>\<open>catch\<close> branch).
\<close>

definition PaymentChallenge_parse ::
  "(string \<Rightarrow> string option) \<Rightarrow> string \<Rightarrow> js_error + PaymentChallenge" where
  "PaymentChallenge_parse getAddress challenge =
     (let pieces = split_on CHR ''?'' challenge;
          tokenChain = hd pieces;
          rest = element pieces 1;
          parts = split_on CHR '':'' tokenChain;
          params = URLSearchParams rest
      in case element parts 1 of
           None \<Rightarrow> Inl JsTypeError
         | Some chain' \<Rightarrow>
             Inr \<lparr> raw = challenge,
                   token = toLowerCase (hd parts),
                   chain = toLowerCase chain',
                   recipient =
                     (case element parts 2 of
                        None \<Rightarrow> JUndefined
                      | Some r \<Rightarrow> (case getAddress r of Some a \<Rightarrow> JStr a | None \<Rightarrow> JStr r)),
                   amount =
                     (case map_of params ''amount'' of
                        None \<Rightarrow> ''0.001''
                      | Some a \<Rightarrow> if a = [] then ''0.001'' else a) \<rparr>)"

text \<open>The static registry of \<^verbatim>\<open>PaymentChallenge.getTokenAddress\<close>.\<close>

definition client_tokens :: "(string \<times> (string \<times> string) list) list" where
  "client_tokens =
     [(''base_sepolia'',
         [(''usdc'', ''0x036CbD53842c5426634e7929541eC2318f3dCF7e''),
          (''mock_usdc'', ''0x0000000000000000000000000000000000000000'')]),
      (''base'', [(''usdc'', ''0x833589fCD6eDb6E08f4c7C32D4f71b54bdA02913'')]),
      (''optimism_sepolia'', [(''usdc'', ''0x5fd84259d66Cd46123540766Be93DFE6D43130D7'')])]"

text \<open>
  What \<^verbatim>\<open>tokens[chain]?.[token] || null\<close> evaluates to: a non-empty string, a truthy
  value that is not a string (a function, an object, a non-zero number), or \<^verbatim>\<open>null\<close>.
\<close>

datatype property = Str string | NonString | Nullish

text \<open>
  Reading a property of an object literal finds the object's own entry first and otherwise
  the member of that name that every object inherits from \<^verbatim>\<open>Object.prototype\<close>. These
  are the names of the inherited members; each of them reads as a function, except
  \<^verbatim>\<open>__proto__\<close>, which reads as \<^verbatim>\<open>Object.prototype\<close> itself. No other name is
  found.
\<close>

definition Object_prototype_members :: "string list" where
  "Object_prototype_members =
     [''constructor'', ''__defineGetter__'', ''__defineSetter__'', ''hasOwnProperty'',
      ''__lookupGetter__'', ''__lookupSetter__'', ''isPrototypeOf'', ''propertyIsEnumerable'',
      ''toString'', ''valueOf'', ''__proto__'', ''toLocaleString'']"

text \<open>
  When the chain name itself is the name of an inherited member, the token name is read from
  that built-in function or object. What this gives depends on the built-in objects of the
  JavaScript runtime and is a parameter: \<open>builtins m t\<close> is the result of reading property
  \<open>t\<close> of the member inherited under the name \<open>m\<close>: a string, a truthy value that is not
  a string, a falsy or missing value (\<open>Nullish\<close>), or a throw (of an accessor).
\<close>

type_synonym object_builtins = "string \<Rightarrow> string \<Rightarrow> js_error + property"

text \<open>
  \<^verbatim>\<open>tokens[chain]?.[token] || null\<close> on a registry: the own entry of the token under the
  own entry of the chain, else the inherited member of that name, else \<^verbatim>\<open>null\<close>; a falsy
  value becomes \<^verbatim>\<open>null\<close>.
\<close>

definition registry_lookup ::
  "object_builtins \<Rightarrow> (string \<times> (string \<times> string) list) list \<Rightarrow> string \<Rightarrow> string \<Rightarrow>
     js_error + property" where
  "registry_lookup builtins tokens chain' token' =
     (case map_of tokens chain' of
        Some entries \<Rightarrow>
          (case map_of entries token' of
             Some address \<Rightarrow> Inr (if address = [] then Nullish else Str address)
           | None \<Rightarrow>
               Inr (if token' \<in> set Object_prototype_members then NonString else Nullish))
      | None \<Rightarrow>
          if chain' \<in> set Object_prototype_members
          then (case builtins chain' token' of
                  Inl e \<Rightarrow> Inl e
                | Inr (Str s) \<Rightarrow> Inr (if s = [] then Nullish else Str s)
                | Inr p \<Rightarrow> Inr p)
          else Inr Nullish)"

text \<open>The (chain, token) pairs a registry lists.\<close>

definition registry_pairs :: "(string \<times> (string \<times> string) list) list \<Rightarrow> (string \<times> string) list" where
  "registry_pairs tokens = concat (map (\<lambda>(c, entries). map (\<lambda>(t, a). (c, t)) entries) tokens)"

text \<open>
  \<^verbatim>\<open>PaymentChallenge.getTokenAddress\<close>: \<^verbatim>\<open>null\<close> stays \<^verbatim>\<open>null\<close>, anything else
  goes through \<^verbatim>\<open>ethers.getAddress\<close>, which throws on a value that is not a string.
\<close>

definition PaymentChallenge_getTokenAddress ::
  "object_builtins \<Rightarrow> (string \<Rightarrow> string option) \<Rightarrow> PaymentChallenge \<Rightarrow>
     js_error + string option" where
  "PaymentChallenge_getTokenAddress builtins getAddress c =
     (case registry_lookup builtins client_tokens (chain c) (token c) of
        Inl e \<Rightarrow> Inl e
      | Inr Nullish \<Rightarrow> Inr None
      | Inr NonString \<Rightarrow> Inl InvalidAddress
      | Inr (Str address) \<Rightarrow>
          (case getAddress address of None \<Rightarrow> Inl InvalidAddress | Some a \<Rightarrow> Inr (Some a)))"

definition getAmountWei :: "PaymentChallenge \<Rightarrow> js_error + int" where
  "getAmountWei c = (case parseUnits (amount c) 6 of None \<Rightarrow> Inl InvalidUnits | Some w \<Rightarrow> Inr w)"

text \<open>\<^verbatim>\<open>PaymentProof\<close>: the constructor's four arguments, and \<^verbatim>\<open>encode(signature)\<close>.\<close>

record PaymentProof =
  txHash :: string
  challenge :: PaymentChallenge
  nonce :: jsval
  timestamp :: jsval

definition proofObject ::
  "object_builtins \<Rightarrow> (string \<Rightarrow> string option) \<Rightarrow> PaymentProof \<Rightarrow> string \<Rightarrow>
     js_error + jsobj" where
  "proofObject builtins getAddress pp signature =
     (case PaymentChallenge_getTokenAddress builtins getAddress (challenge pp) of
        Inl e \<Rightarrow> Inl e
      | Inr tokenAddress \<Rightarrow>
          (case getAmountWei (challenge pp) of
             Inl e \<Rightarrow> Inl e
           | Inr wei \<Rightarrow>
               Inr [(''txHash'', JStr (txHash pp)),
                    (''token'', (case tokenAddress of None \<Rightarrow> JNull | Some a \<Rightarrow> JStr a)),
                    (''recipient'', recipient (challenge pp)),
                    (''amount'', JStr (showInt wei)),
                    (''timestamp'', timestamp pp),
                    (''nonce'', nonce pp),
                    (''signature'', JStr signature)]))"

definition encode ::
  "object_builtins \<Rightarrow> (string \<Rightarrow> string option) \<Rightarrow> PaymentProof \<Rightarrow> string \<Rightarrow>
     js_error + header" where
  "encode builtins getAddress pp signature =
     (case proofObject builtins getAddress pp signature of
        Inl e \<Rightarrow> Inl e
      | Inr proof \<Rightarrow> Inr (JSON_stringify_base64 proof))"

section \<open>The server middleware (src/src/middleware.js)\<close>

subsection \<open>Collaborators\<close>

text \<open>
  What \<^verbatim>\<open>provider.getTransaction\<close> returns. The call data is modelled by what the
  ABI decoder of ethers makes of it: a well-formed \<^verbatim>\<open>transfer(address,uint256)\<close> call
  (selector \<^verbatim>\<open>0xa9059cbb\<close>) with its two arguments, data with that selector that the
  decoder throws on, the same two cases for \<^verbatim>\<open>approve(address,uint256)\<close>, or any other
  data. A block number of \<^verbatim>\<open>null\<close> is \<open>None\<close>.
\<close>

datatype calldata =
    TransferCall string nat
  | TransferMalformed
  | ApproveCall string nat
  | ApproveMalformed
  | OtherData

record transaction =
  tx_to :: "string option"
  tx_value :: nat
  tx_data :: calldata
  tx_blockNumber :: "nat option"

record provider =
  getTransaction :: "string \<Rightarrow> transaction option"
  getTransactionReceipt :: "string \<Rightarrow> int option option"

text \<open>
  The two functions of ethers that the middleware calls on a decoded proof, \<open>None\<close> for
  a throw: \<^verbatim>\<open>solidityPackedKeccak256\<close> over the six signed fields (it throws on a value
  that is not of the declared Solidity type) and the signer recovered from a hash and a
  signature (\<^verbatim>\<open>recoverAddress(hashMessage(getBytes(hash)), signature)\<close>).
\<close>

record ethers_lib =
  solidityPackedKeccak256 :: "jsobj \<Rightarrow> string option"
  recoverAddress :: "string \<Rightarrow> jsval \<Rightarrow> string option"

text \<open>
  The number a value becomes in a comparison with a number; \<open>None\<close> is \<^verbatim>\<open>NaN\<close>,
  against which every comparison is false. Strings are read as plain decimal digits; other
  spellings of a number in a string are not modelled.
\<close>

fun toNumber :: "jsval \<Rightarrow> int option" where
  "toNumber (JNum n) = Some n"
| "toNumber (JBool b) = Some (if b then 1 else 0)"
| "toNumber JNull = Some 0"
| "toNumber (JStr s) = (if list_all isDigit s then Some (int (digitsVal s)) else None)"
| "toNumber JUndefined = None"
| "toNumber JNaN = None"

definition js_less :: "jsval \<Rightarrow> int \<Rightarrow> bool" where
  "js_less v k = (case toNumber v of None \<Rightarrow> False | Some n \<Rightarrow> n < k)"

definition js_greater :: "jsval \<Rightarrow> int \<Rightarrow> bool" where
  "js_greater v k = (case toNumber v of None \<Rightarrow> False | Some n \<Rightarrow> n > k)"

text \<open>\<^verbatim>\<open>v.toLowerCase()\<close> and \<^verbatim>\<open>v.toString()\<close>; \<open>None\<close> is a TypeError.\<close>

fun js_toLowerCase :: "jsval \<Rightarrow> string option" where
  "js_toLowerCase (JStr s) = Some (toLowerCase s)"
| "js_toLowerCase v = None"

fun js_toString :: "jsval \<Rightarrow> string option" where
  "js_toString (JStr s) = Some s"
| "js_toString (JNum n) = Some (showInt n)"
| "js_toString (JBool b) = Some (if b then ''true'' else ''false'')"
| "js_toString JNaN = Some ''NaN''"
| "js_toString JNull = None"
| "js_toString JUndefined = None"

subsection \<open>\<^verbatim>\<open>verifyProofSignature\<close> and \<^verbatim>\<open>verifyPaymentTransaction\<close>\<close>

definition verifyProofSignature :: "ethers_lib \<Rightarrow> jsobj \<Rightarrow> string option" where
  "verifyProofSignature lib proof =
     (case solidityPackedKeccak256 lib proof of
        None \<Rightarrow> None
      | Some proofHash \<Rightarrow> recoverAddress lib proofHash (getProp proof ''signature''))"

text \<open>
  Every throw inside \<^verbatim>\<open>verifyPaymentTransaction\<close> is caught and gives \<^verbatim>\<open>false\<close>:
  a transaction hash that is not a string, a missing receipt, call data the decoder throws
  on, a recipient or amount without the method called on it.
\<close>

definition verifyPaymentTransaction :: "provider \<Rightarrow> jsobj \<Rightarrow> bool" where
  "verifyPaymentTransaction prov proof =
     (case getProp proof ''txHash'' of
        JStr h \<Rightarrow>
          (case getTransaction prov h of
             None \<Rightarrow> False
           | Some tx \<Rightarrow>
               if tx_blockNumber tx = None \<or> tx_blockNumber tx = Some 0 then False
               else
                 (case getTransactionReceipt prov h of
                    None \<Rightarrow> False
                  | Some status \<Rightarrow>
                      if status \<noteq> Some 1 then False
                      else
                        (case tx_data tx of
                           TransferCall dest amt \<Rightarrow>
                             (case js_toLowerCase (getProp proof ''recipient'') of
                                None \<Rightarrow> False
                              | Some r \<Rightarrow>
                                  if toLowerCase dest \<noteq> r then False
                                  else
                                    (case js_toString (getProp proof ''amount'') of
                                       None \<Rightarrow> False
                                     | Some a \<Rightarrow> if showNat amt \<noteq> a then False else True))
                         | TransferMalformed \<Rightarrow> False
                         | _ \<Rightarrow> True)))
      | _ \<Rightarrow> False)"

subsection \<open>\<^verbatim>\<open>PaymentMiddlewareConfig\<close> and its proof cache\<close>

text \<open>
  The cache is a \<^verbatim>\<open>Map\<close> from proof hash to the millisecond time of insertion. The
  on-chain verifier is modelled by the answer its view call gives for a proof (a revert or
  any other throw is \<^verbatim>\<open>false\<close>); marking a proof used on chain does not touch the
  middleware's own state, and its result is ignored by the caller.
\<close>

type_synonym proofCache = "string \<Rightarrow> int option"

record PaymentMiddlewareConfig =
  routes :: "(string \<times> string) list"
  cfg_provider :: "provider option"
  verifierContract :: "(jsobj \<Rightarrow> bool) option"
  verifierSigner :: "unit option"
  verifyOnChain :: bool
  verifyTransaction :: bool
  markUsed :: bool

definition getChallengeForRoute :: "PaymentMiddlewareConfig \<Rightarrow> string \<Rightarrow> string option" where
  "getChallengeForRoute config path =
     (case map_of (routes config) path of
        None \<Rightarrow> None
      | Some c \<Rightarrow> if c = [] then None else Some c)"

definition isProofUsedInCache :: "proofCache \<Rightarrow> string \<Rightarrow> bool" where
  "isProofUsedInCache cache proofHash = (cache proofHash \<noteq> None)"

text \<open>
  \<^verbatim>\<open>markProofInCache\<close>: insert with the current time, then delete every entry older
  than ten minutes. The two reads of the clock inside the call are taken as one instant.
\<close>

definition markProofInCache :: "proofCache \<Rightarrow> string \<Rightarrow> int \<Rightarrow> proofCache" where
  "markProofInCache cache proofHash now =
     (let cache1 = cache(proofHash \<mapsto> now);
          cutoff = now - 600000
      in (\<lambda>h. case cache1 h of
                 None \<Rightarrow> None
               | Some t \<Rightarrow> if t < cutoff then None else Some t))"

subsection \<open>\<^verbatim>\<open>paymentMiddleware\<close>\<close>

datatype denial =
    PaymentProofAlreadyUsed
  | PaymentProofExpired
  | PaymentTransactionInvalid
  | PaymentProofVerificationFailed
  | InvalidPaymentProof

datatype response = Next | Status402 string | Status403 denial

record request =
  path :: string
  x_payment_proof :: "header option"

text \<open>
  The middleware is an \<^verbatim>\<open>async\<close> function. It runs without interruption from its
  entry to its first \<^verbatim>\<open>await\<close>, and other requests are served while it waits. The run
  is therefore cut in two. \<open>middleware_begin\<close> is the code from the entry to the signature
  check: it answers at once, or leaves a proof with its hash to be continued.
  \<open>middleware_finish\<close> is the rest: the awaited transaction and on-chain verifications,
  the insertion into the cache and the call of \<^verbatim>\<open>next\<close>.
\<close>

datatype begun = Answered response | Continue jsobj string

definition timestampOutOfWindow :: "int \<Rightarrow> jsval \<Rightarrow> bool" where
  "timestampOutOfWindow now ts = (js_less ts (now - 300) \<or> js_greater ts (now + 60))"

definition middleware_begin ::
  "ethers_lib \<Rightarrow> PaymentMiddlewareConfig \<Rightarrow> proofCache \<Rightarrow> request \<Rightarrow> int \<Rightarrow> begun" where
  "middleware_begin lib config cache req ms =
     (case getChallengeForRoute config (path req) of
        None \<Rightarrow> Answered Next
      | Some challenge' \<Rightarrow>
          (case x_payment_proof req of
             None \<Rightarrow> Answered (Status402 challenge')
           | Some proofHeader \<Rightarrow>
               (case decodeProof proofHeader of
                  Inl e \<Rightarrow> Answered (Status403 InvalidPaymentProof)
                | Inr proof \<Rightarrow>
                    (case solidityPackedKeccak256 lib proof of
                       None \<Rightarrow> Answered (Status403 InvalidPaymentProof)
                     | Some proofHash \<Rightarrow>
                         if isProofUsedInCache cache proofHash
                         then Answered (Status403 PaymentProofAlreadyUsed)
                         else if timestampOutOfWindow (ms div 1000) (getProp proof ''timestamp'')
                         then Answered (Status403 PaymentProofExpired)
                         else
                           (case verifyProofSignature lib proof of
                              None \<Rightarrow> Answered (Status403 InvalidPaymentProof)
                            | Some signer \<Rightarrow> Continue proof proofHash)))))"

definition middleware_finish ::
  "PaymentMiddlewareConfig \<Rightarrow> proofCache \<Rightarrow> jsobj \<Rightarrow> string \<Rightarrow> int \<Rightarrow> response \<times> proofCache" where
  "middleware_finish config cache proof proofHash ms =
     (if verifyTransaction config \<and> cfg_provider config \<noteq> None \<and>
         \<not> verifyPaymentTransaction (the (cfg_provider config)) proof
      then (Status403 PaymentTransactionInvalid, cache)
      else if verifyOnChain config \<and> verifierContract config \<noteq> None \<and>
              \<not> (the (verifierContract config)) proof
      then (Status403 PaymentProofVerificationFailed, cache)
      else (Next, markProofInCache cache proofHash ms))"

text \<open>
  One request served alone: the second half runs on the cache the first half saw, at a later
  reading of the clock.
\<close>

definition paymentMiddleware ::
  "ethers_lib \<Rightarrow> PaymentMiddlewareConfig \<Rightarrow> proofCache \<Rightarrow> request \<Rightarrow> int \<Rightarrow> int \<Rightarrow>
     response \<times> proofCache" where
  "paymentMiddleware lib config cache req ms ms' =
     (case middleware_begin lib config cache req ms of
        Answered r \<Rightarrow> (r, cache)
      | Continue proof proofHash \<Rightarrow> middleware_finish config cache proof proofHash ms')"

text \<open>
  Several requests in flight. An event is the arrival of a request, which runs
  \<open>middleware_begin\<close>, or the completion of the awaited verifications of a waiting
  request, which runs \<open>middleware_finish\<close>; each carries the clock reading of its moment.
  When the configuration leaves nothing to await, a request runs to its end on arrival.
\<close>

definition awaits :: "PaymentMiddlewareConfig \<Rightarrow> bool" where
  "awaits config =
     ((verifyTransaction config \<and> cfg_provider config \<noteq> None) \<or>
      (verifyOnChain config \<and> verifierContract config \<noteq> None))"

datatype event = Arrives nat request int | Resumes nat int

record server =
  proofCache :: proofCache
  waiting :: "(nat \<times> jsobj \<times> string) list"
  answered :: "(nat \<times> response) list"

definition serve :: "ethers_lib \<Rightarrow> PaymentMiddlewareConfig \<Rightarrow> server \<Rightarrow> event \<Rightarrow> server" where
  "serve lib config s ev =
     (case ev of
        Arrives i req ms \<Rightarrow>
          (case middleware_begin lib config (proofCache s) req ms of
             Answered r \<Rightarrow> s\<lparr> answered := answered s @ [(i, r)] \<rparr>
           | Continue proof proofHash \<Rightarrow>
               if awaits config then s\<lparr> waiting := waiting s @ [(i, proof, proofHash)] \<rparr>
               else (case middleware_finish config (proofCache s) proof proofHash ms of
                       (r, cache') \<Rightarrow> s\<lparr> proofCache := cache', answered := answered s @ [(i, r)] \<rparr>))
      | Resumes i ms \<Rightarrow>
          (case map_of (waiting s) i of
             None \<Rightarrow> s
           | Some (proof, proofHash) \<Rightarrow>
               (case middleware_finish config (proofCache s) proof proofHash ms of
                  (r, cache') \<Rightarrow>
                    s\<lparr> proofCache := cache',
                       waiting := filter (\<lambda>w. fst w \<noteq> i) (waiting s),
                       answered := answered s @ [(i, r)] \<rparr>)))"

definition serve_all :: "ethers_lib \<Rightarrow> PaymentMiddlewareConfig \<Rightarrow> server \<Rightarrow> event list \<Rightarrow> server" where
  "serve_all lib config s evs = foldl (serve lib config) s evs"

definition fresh_server :: server where
  "fresh_server = \<lparr> proofCache = Map.empty, waiting = [], answered = [] \<rparr>"

section \<open>The standalone middleware (src/unnamed/part_000)\<close>

text \<open>
  \<^verbatim>\<open>parseChallenge\<close>. The parts are read inside one object literal, so a missing chain
  is a TypeError and a recipient that \<open>getAddress\<close> rejects, a missing one included, makes
  the whole call throw. The \<^verbatim>\<open>nonce\<close> of the result is read by nothing and is left out.
\<close>

record parsedChallenge =
  pc_token :: string
  pc_chain :: string
  pc_recipient :: string
  pc_amount :: string

definition parseChallenge ::
  "(string \<Rightarrow> string option) \<Rightarrow> string \<Rightarrow> js_error + parsedChallenge" where
  "parseChallenge getAddress challengeString =
     (let pieces = split_on CHR ''?'' challengeString;
          tokenChain = hd pieces;
          rest = element pieces 1;
          parts = split_on CHR '':'' tokenChain;
          params = URLSearchParams (Some (case rest of None \<Rightarrow> [] | Some q \<Rightarrow> q))
      in case element parts 1 of
           None \<Rightarrow> Inl JsTypeError
         | Some chain' \<Rightarrow>
             (case element parts 2 of
                None \<Rightarrow> Inl InvalidAddress
              | Some r \<Rightarrow>
                  (case getAddress r of
                     None \<Rightarrow> Inl InvalidAddress
                   | Some a \<Rightarrow>
                       Inr \<lparr> pc_token = toLowerCase (hd parts),
                             pc_chain = toLowerCase chain',
                             pc_recipient = a,
                             pc_amount =
                               (case map_of params ''amount'' of
                                  None \<Rightarrow> ''0.001''
                                | Some v \<Rightarrow> if v = [] then ''0.001'' else v) \<rparr>)))"

definition standalone_tokens :: "(string \<times> (string \<times> string) list) list" where
  "standalone_tokens =
     [(''base_sepolia'', [(''usdc'', ''0x036CbD53842c5426634e7929541eC2318f3dCF7e'')]),
      (''base'', [(''usdc'', ''0x833589fCD6eDb6E08f4c7C32D4f71b54bdA02913'')])]"

definition getTokenAddress :: "object_builtins \<Rightarrow> string \<Rightarrow> string \<Rightarrow> js_error + property" where
  "getTokenAddress builtins chain' token' =
     registry_lookup builtins standalone_tokens chain' token'"

definition ZeroAddress :: string where
  "ZeroAddress = ''0x0000000000000000000000000000000000000000''"

text \<open>
  \<^verbatim>\<open>verifyPaymentTransaction(provider, txHash, expectedRecipient, expectedAmount,
  tokenAddress)\<close>. It returns \<^verbatim>\<open>true\<close> or throws; the error names the message thrown.
  Inside the inner \<^verbatim>\<open>try\<close> every throw, the two mismatch errors included, is replaced
  by \<^verbatim>\<open>Invalid token transfer transaction\<close>. A token address that is \<^verbatim>\<open>null\<close>, empty
  or the zero address selects the native-currency branch; one that is not a string has no
  \<^verbatim>\<open>toLowerCase\<close>, a TypeError.
\<close>

datatype verify_error =
    TransactionNotFound
  | TransactionRecipientMismatch
  | TransactionAmountInsufficient
  | TransactionNotToTokenContract
  | InvalidTokenTransferTransaction
  | TransactionIsNotAValidTransfer
  | VerifyTypeError
  | VerifyInvalidAmount

definition standalone_verifyPaymentTransaction ::
  "provider \<Rightarrow> string \<Rightarrow> string \<Rightarrow> string \<Rightarrow> property \<Rightarrow> verify_error + bool" where
  "standalone_verifyPaymentTransaction prov h expectedRecipient expectedAmount tokenAddress =
     (case getTransaction prov h of
        None \<Rightarrow> Inl TransactionNotFound
      | Some tx \<Rightarrow>
          if tokenAddress = Nullish \<or> tokenAddress = Str [] \<or> tokenAddress = Str ZeroAddress
          then
            (case tx_to tx of
               None \<Rightarrow> Inl VerifyTypeError
             | Some dest \<Rightarrow>
                 if toLowerCase dest \<noteq> toLowerCase expectedRecipient
                 then Inl TransactionRecipientMismatch
                 else
                   (case parseEther expectedAmount of
                      None \<Rightarrow> Inl VerifyInvalidAmount
                    | Some wei \<Rightarrow>
                        if int (tx_value tx) < wei then Inl TransactionAmountInsufficient
                        else Inr True))
          else
            (case tx_to tx of
               None \<Rightarrow> Inl VerifyTypeError
             | Some target \<Rightarrow>
                 (case tokenAddress of
                    Str contract \<Rightarrow>
                      if toLowerCase target \<noteq> toLowerCase contract
                      then Inl TransactionNotToTokenContract
                      else
                        (case tx_data tx of
                           TransferCall dest amt \<Rightarrow>
                             if toLowerCase dest \<noteq> toLowerCase expectedRecipient
                             then Inl InvalidTokenTransferTransaction
                             else
                               (case parseUnits expectedAmount 6 of
                                  None \<Rightarrow> Inl InvalidTokenTransferTransaction
                                | Some expectedAmountWei \<Rightarrow>
                                    if int amt < expectedAmountWei
                                    then Inl InvalidTokenTransferTransaction
                                    else Inr True)
                         | ApproveCall spender amt \<Rightarrow> Inl TransactionIsNotAValidTransfer
                         | _ \<Rightarrow> Inl InvalidTokenTransferTransaction)
                  | _ \<Rightarrow> Inl VerifyTypeError)))"

text \<open>
  The middleware itself. The route table is the dispatch layer; the middleware is modelled
  from the challenge string the table gives for the path (\<open>None\<close> when no route matches).
  \<^verbatim>\<open>ethers.verifyMessage\<close> on the message built from the proof, and the comparison
  \<^verbatim>\<open>parseFloat(a) < parseFloat(b)\<close> of two amounts in floating point, are parameters.
  A throw of \<^verbatim>\<open>getTokenAddress\<close> is caught like every other inside the \<^verbatim>\<open>try\<close>.
\<close>

record standalone_lib =
  verifyMessage :: "jsobj \<Rightarrow> string option"
  parseFloat_less :: "jsval \<Rightarrow> string \<Rightarrow> bool"

datatype standalone_denial =
    ProofFormatInvalid
  | PaymentRecipientMismatch
  | InsufficientPaymentAmount
  | VerificationFailed_InvalidProofFormat
  | VerificationFailed_InvalidSignature
  | VerificationFailed_TypeError
  | VerificationFailed verify_error

datatype standalone_response =
    CallsNext
  | PaymentRequired402 string parsedChallenge
  | Forbidden403 standalone_denial
  | Throws js_error

definition standalone_paymentMiddleware ::
  "object_builtins \<Rightarrow> standalone_lib \<Rightarrow> (string \<Rightarrow> string option) \<Rightarrow> provider \<Rightarrow> bool \<Rightarrow>
     string option \<Rightarrow> header option \<Rightarrow> standalone_response" where
  "standalone_paymentMiddleware builtins lib getAddress prov verifyTx challengeString
     proofHeader =
     (if challengeString = None \<or> challengeString = Some [] then CallsNext
      else
        (case parseChallenge getAddress (the challengeString) of
           Inl e \<Rightarrow> Throws e
         | Inr ch \<Rightarrow>
             (case proofHeader of
                None \<Rightarrow> PaymentRequired402 (the challengeString) ch
              | Some B64_not_JSON \<Rightarrow> Forbidden403 VerificationFailed_InvalidProofFormat
              | Some B64_JSON_null \<Rightarrow> Forbidden403 VerificationFailed_TypeError
              | Some B64_JSON_other \<Rightarrow> Forbidden403 ProofFormatInvalid
              | Some (B64_JSON_object proof) \<Rightarrow>
                  if \<not> (truthy (getProp proof ''txHash'') \<and> truthy (getProp proof ''signature'') \<and>
                        truthy (getProp proof ''recipient'') \<and> truthy (getProp proof ''amount''))
                  then Forbidden403 ProofFormatInvalid
                  else
                    (case verifyMessage lib proof of
                       None \<Rightarrow> Forbidden403 VerificationFailed_InvalidSignature
                     | Some signer \<Rightarrow>
                         (case js_toLowerCase (getProp proof ''recipient'') of
                            None \<Rightarrow> Forbidden403 VerificationFailed_TypeError
                          | Some r \<Rightarrow>
                              if r \<noteq> toLowerCase (pc_recipient ch)
                              then Forbidden403 PaymentRecipientMismatch
                              else if parseFloat_less lib (getProp proof ''amount'') (pc_amount ch)
                              then Forbidden403 InsufficientPaymentAmount
                              else if verifyTx
                              then
                                (case getTokenAddress builtins (pc_chain ch) (pc_token ch) of
                                   Inl e \<Rightarrow> Forbidden403 VerificationFailed_TypeError
                                 | Inr tokenAddress \<Rightarrow>
                                     (case getProp proof ''txHash'' of
                                        JStr h \<Rightarrow>
                                          (case standalone_verifyPaymentTransaction prov h
                                                  (pc_recipient ch) (pc_amount ch) tokenAddress of
                                             Inl e \<Rightarrow> Forbidden403 (VerificationFailed e)
                                           | Inr ok \<Rightarrow> CallsNext)
                                      | _ \<Rightarrow> Forbidden403 (VerificationFailed VerifyTypeError)))
                              else CallsNext)))))"

text \<open>
  The client's \<^verbatim>\<open>PaymentHandler.executePayment\<close>, up to its check of the token
  address: a \<^verbatim>\<open>null\<close> address stops the payment with
  \<^verbatim>\<open>Token address not found for <token> on <chain>\<close>. The transfer itself happens on
  the chain and is a parameter, called with the token address, the recipient and the amount.
\<close>

definition executePayment ::
  "object_builtins \<Rightarrow> (string \<Rightarrow> string option) \<Rightarrow>
     (string \<Rightarrow> jsval \<Rightarrow> int \<Rightarrow> js_error + string) \<Rightarrow> PaymentChallenge \<Rightarrow> js_error + string" where
  "executePayment builtins getAddress transfer c =
     (case PaymentChallenge_getTokenAddress builtins getAddress c of
        Inl e \<Rightarrow> Inl e
      | Inr tokenAddress \<Rightarrow>
          (case getAmountWei c of
             Inl e \<Rightarrow> Inl e
           | Inr amountWei \<Rightarrow>
               (case tokenAddress of
                  None \<Rightarrow> Inl (TokenAddressNotFound (token c) (chain c))
                | Some a \<Rightarrow> transfer a (recipient c) amountWei)))"

section \<open>The client's request flow (src/src/client.js)\<close>

text \<open>
  \<^verbatim>\<open>X402Client.fetch\<close>. The network answers the \<open>n\<close>-th request of the call, given
  the proof header it carries, with a status and a JSON body (\<open>None\<close> when the body is
  not JSON, on which \<^verbatim>\<open>response.json()\<close> throws). \<^verbatim>\<open>this.pay\<close>, the payment on the
  chain and the construction of the proof, is a parameter. Besides its result the model
  returns the trace of what the call did.
\<close>

record http_response =
  status :: nat
  body :: "jsobj option"

datatype action = Request "header option" | Pay string

datatype fetch_error = MissingPaymentChallenge | BodyNotJson | PaymentFailed js_error

text \<open>
  The body of the \<^verbatim>\<open>if (response.status === 402 && this.options.autoRetry)\<close> block
  from the challenge string on: no challenge throws, a challenge is paid and the request is
  sent once more with the proof; whatever comes back is returned.
\<close>

definition pay_and_retry ::
  "(string \<Rightarrow> js_error + header) \<Rightarrow> (nat \<Rightarrow> header option \<Rightarrow> http_response) \<Rightarrow> jsval \<Rightarrow>
     (fetch_error + http_response) \<times> action list" where
  "pay_and_retry pay network challengeString =
     (case challengeString of
        JStr c \<Rightarrow>
          (if c = [] then (Inl MissingPaymentChallenge, [Request None])
           else
             (case pay c of
                Inl e \<Rightarrow> (Inl (PaymentFailed e), [Request None, Pay c])
              | Inr proof \<Rightarrow>
                  (Inr (network 1 (Some proof)), [Request None, Pay c, Request (Some proof)])))
      | v \<Rightarrow>
          (if truthy v then (Inl (PaymentFailed JsTypeError), [Request None])
           else (Inl MissingPaymentChallenge, [Request None])))"

definition X402Client_fetch ::
  "bool \<Rightarrow> (string \<Rightarrow> js_error + header) \<Rightarrow> (nat \<Rightarrow> header option \<Rightarrow> http_response) \<Rightarrow>
     (fetch_error + http_response) \<times> action list" where
  "X402Client_fetch autoRetry pay network =
     (let response = network 0 None in
      if status response = 402 \<and> autoRetry then
        (case body response of
           None \<Rightarrow> (Inl BodyNotJson, [Request None])
         | Some b \<Rightarrow>
             pay_and_retry pay network
               (if truthy (getProp b ''challenge'') then getProp b ''challenge''
                else getProp b ''payment_required''))
      else (Inr response, [Request None]))"

text \<open>How many requests a trace sends, and how many payments it makes.\<close>

definition requests :: "action list \<Rightarrow> nat" where
  "requests trace = length (filter (\<lambda>x. case x of Request h \<Rightarrow> True | Pay c \<Rightarrow> False) trace)"

definition payments :: "action list \<Rightarrow> nat" where
  "payments trace = length (filter (\<lambda>x. case x of Request h \<Rightarrow> False | Pay c \<Rightarrow> True) trace)"

section \<open>The verifier contract (src/contracts/PaymentVerifier.sol)\<close>

text \<open>
  \<^verbatim>\<open>uint256\<close> and \<^verbatim>\<open>bytes32\<close> are 256-bit words, an \<^verbatim>\<open>address\<close> is a 160-bit
  word. Arithmetic is checked (Solidity 0.8): an overflow reverts with a panic.
  \<^verbatim>\<open>keccak256(abi.encodePacked(...))\<close> over the six fields and
  \<^verbatim>\<open>toEthSignedMessageHash().recover(signature)\<close> are parameters; \<open>recover\<close> gives
  \<open>None\<close> where the library reverts on the signature.
\<close>

type_synonym uint256 = "256 word"
type_synonym bytes32 = "256 word"
type_synonym address = "160 word"

record proofArgs =
  a_paymentTxHash :: bytes32
  a_token :: address
  a_recipient :: address
  a_amount :: uint256
  a_timestamp :: uint256
  a_nonce :: uint256
  a_signature :: "8 word list"

record crypto =
  keccak256_packed :: "bytes32 \<Rightarrow> address \<Rightarrow> address \<Rightarrow> uint256 \<Rightarrow> uint256 \<Rightarrow> uint256 \<Rightarrow> bytes32"
  recover :: "bytes32 \<Rightarrow> 8 word list \<Rightarrow> address option"

record PaymentVerifier =
  usedProofs :: "bytes32 \<Rightarrow> bool"
  nonces :: "address \<Rightarrow> uint256"

datatype revert =
    ProofExpired
  | ProofTimestampTooFarInFuture
  | ProofAlreadyUsed
  | InvalidNonce
  | InvalidSignature
  | InvalidProof
  | Panic

definition checked_add :: "uint256 \<Rightarrow> uint256 \<Rightarrow> uint256 option" where
  "checked_add x y = (if unat x + unat y < 2 ^ 256 then Some (x + y) else None)"

definition proofHashOf :: "crypto \<Rightarrow> proofArgs \<Rightarrow> bytes32" where
  "proofHashOf k a =
     keccak256_packed k (a_paymentTxHash a) (a_token a) (a_recipient a) (a_amount a)
       (a_timestamp a) (a_nonce a)"

text \<open>\<^verbatim>\<open>verifyPaymentProof\<close> at block time \<open>now\<close>: \<^verbatim>\<open>true\<close>, or the revert.\<close>

definition verifyPaymentProof ::
  "crypto \<Rightarrow> PaymentVerifier \<Rightarrow> uint256 \<Rightarrow> proofArgs \<Rightarrow> revert + bool" where
  "verifyPaymentProof k c now a =
     (case checked_add (a_timestamp a) 300 of
        None \<Rightarrow> Inl Panic
      | Some deadline \<Rightarrow>
          if \<not> now \<le> deadline then Inl ProofExpired
          else
            (case checked_add now 60 of
               None \<Rightarrow> Inl Panic
             | Some latest \<Rightarrow>
                 if \<not> a_timestamp a \<le> latest then Inl ProofTimestampTooFarInFuture
                 else if usedProofs c (proofHashOf k a) then Inl ProofAlreadyUsed
                 else
                   (case recover k (proofHashOf k a) (a_signature a) of
                      None \<Rightarrow> Inl InvalidSignature
                    | Some signer \<Rightarrow>
                        if nonces c signer \<noteq> a_nonce a then Inl InvalidNonce else Inr True)))"

text \<open>
  \<^verbatim>\<open>markProofUsed\<close>: the new contract state, or the revert. A revert of the nested
  call \<^verbatim>\<open>this.verifyPaymentProof(...)\<close> reverts the caller.
\<close>

definition markProofUsed ::
  "crypto \<Rightarrow> PaymentVerifier \<Rightarrow> uint256 \<Rightarrow> proofArgs \<Rightarrow> revert + PaymentVerifier" where
  "markProofUsed k c now a =
     (case verifyPaymentProof k c now a of
        Inl r \<Rightarrow> Inl r
      | Inr ok \<Rightarrow>
          if \<not> ok then Inl InvalidProof
          else
            (let c1 = c\<lparr> usedProofs := (usedProofs c)(proofHashOf k a := True) \<rparr> in
             case recover k (proofHashOf k a) (a_signature a) of
               None \<Rightarrow> Inl InvalidSignature
             | Some payer \<Rightarrow>
                 (case checked_add (nonces c1 payer) 1 of
                    None \<Rightarrow> Inl Panic
                  | Some n \<Rightarrow> Inr (c1\<lparr> nonces := (nonces c1)(payer := n) \<rparr>))))"

text \<open>
  A transaction calling \<^verbatim>\<open>markProofUsed\<close>: a revert leaves the contract state as it
  was. \<open>transact_all\<close> runs a sequence of such transactions, each at its block time.
\<close>

definition transact ::
  "crypto \<Rightarrow> PaymentVerifier \<Rightarrow> uint256 \<times> proofArgs \<Rightarrow> PaymentVerifier" where
  "transact k c call = (case markProofUsed k c (fst call) (snd call) of Inl r \<Rightarrow> c | Inr c' \<Rightarrow> c')"

definition transact_all ::
  "crypto \<Rightarrow> PaymentVerifier \<Rightarrow> (uint256 \<times> proofArgs) list \<Rightarrow> PaymentVerifier" where
  "transact_all k c calls = foldl (transact k) c calls"

section \<open>Example data\<close>

text \<open>
  The challenge, transaction hash and recipient of the repository's test suite
  (src/test/test.js), with the proof the client builds from them for nonce 0.
  \<open>known_getAddress\<close> is \<^verbatim>\<open>ethers.getAddress\<close> on the strings that occur in the
  examples: the addresses below are in checksummed form already and are returned as they
  are, the lower-case spelling of the test recipient is returned in checksummed form, and
  the other strings used below are not addresses.
\<close>

definition test_recipient :: string where
  "test_recipient = ''0xf81dc05616C47447Ffdc5a866642cDD26271D37b''"

definition other_recipient :: string where
  "other_recipient = ''0x742d35Cc6634C0532925a3b844Bc454e4438f44e''"

definition usdc_base_sepolia :: string where
  "usdc_base_sepolia = ''0x036CbD53842c5426634e7929541eC2318f3dCF7e''"

definition known_getAddress :: "string \<Rightarrow> string option" where
  "known_getAddress a =
     (if a \<in> {test_recipient, other_recipient, usdc_base_sepolia, ZeroAddress,
               ''0x833589fCD6eDb6E08f4c7C32D4f71b54bdA02913'',
               ''0x5fd84259d66Cd46123540766Be93DFE6D43130D7''}
      then Some a
      else if a = toLowerCase test_recipient then Some test_recipient
      else None)"

definition test_challenge :: string where
  "test_challenge = ''usdc:base_sepolia:0xf81dc05616C47447Ffdc5a866642cDD26271D37b?amount=0.001''"

definition test_txHash :: string where
  "test_txHash = ''0x1111111111111111111111111111111111111111111111111111111111111111''"

definition test_signature :: string where
  "test_signature = ''0x5169''"

definition parsed_test_challenge :: PaymentChallenge where
  "parsed_test_challenge =
     \<lparr> raw = test_challenge, token = ''usdc'', chain = ''base_sepolia'',
       recipient = JStr test_recipient, amount = ''0.001'' \<rparr>"

definition proof_nonce0 :: jsobj where
  "proof_nonce0 =
     [(''txHash'', JStr test_txHash),
      (''token'', JStr usdc_base_sepolia),
      (''recipient'', JStr test_recipient),
      (''amount'', JStr ''1000''),
      (''timestamp'', JNum 1700000000),
      (''nonce'', JNum 0),
      (''signature'', JStr test_signature)]"

text \<open>
  A server configured as in examples/complete-demo.js: one paid route, a provider,
  transaction verification on, on-chain verification off. The provider knows four confirmed
  transactions: a transfer of 1000 minor units to the test recipient through the token
  contract, a transfer of 1 minor unit to another recipient through the token contract, a
  plain transaction to that other recipient that carries no value and calls nothing, and a
  plain transaction that sends 0.001 of the native currency to the test recipient. The
  stand-in for the packed hash writes the six signed fields one after the
  other: like the hash it is a function of the six fields only. Every signature string
  recovers to one payer.
\<close>

definition proof_nonce1 :: jsobj where
  "proof_nonce1 =
     [(''txHash'', JStr test_txHash),
      (''token'', JStr usdc_base_sepolia),
      (''recipient'', JStr test_recipient),
      (''amount'', JStr ''1000''),
      (''timestamp'', JNum 1700000000),
      (''nonce'', JNum 1),
      (''signature'', JStr test_signature)]"

definition example_payer :: string where
  "example_payer = ''0x5fd84259d66Cd46123540766Be93DFE6D43130D7''"

definition example_hash :: "jsobj \<Rightarrow> string option" where
  "example_hash proof =
     (case map js_toString
             (map (getProp proof) [''txHash'', ''token'', ''recipient'', ''amount'', ''timestamp'', ''nonce'']) of
        [Some a, Some b, Some c, Some d, Some e, Some f] \<Rightarrow>
          Some (a @ '':'' @ b @ '':'' @ c @ '':'' @ d @ '':'' @ e @ '':'' @ f)
      | _ \<Rightarrow> None)"

definition example_lib :: ethers_lib where
  "example_lib =
     \<lparr> solidityPackedKeccak256 = example_hash,
       recoverAddress = (\<lambda>h sg. case sg of JStr s \<Rightarrow> Some example_payer | _ \<Rightarrow> None) \<rparr>"

definition transfer_elsewhere_txHash :: string where
  "transfer_elsewhere_txHash = ''0x2222222222222222222222222222222222222222222222222222222222222222''"

definition plain_txHash :: string where
  "plain_txHash = ''0x3333333333333333333333333333333333333333333333333333333333333333''"

definition native_txHash :: string where
  "native_txHash = ''0x4444444444444444444444444444444444444444444444444444444444444444''"

definition example_provider :: provider where
  "example_provider =
     \<lparr> getTransaction =
         (\<lambda>h. if h = test_txHash
               then Some \<lparr> tx_to = Some usdc_base_sepolia, tx_value = 0,
                           tx_data = TransferCall test_recipient 1000,
                           tx_blockNumber = Some 4242 \<rparr>
               else if h = transfer_elsewhere_txHash
               then Some \<lparr> tx_to = Some usdc_base_sepolia, tx_value = 0,
                           tx_data = TransferCall other_recipient 1,
                           tx_blockNumber = Some 4243 \<rparr>
               else if h = plain_txHash
               then Some \<lparr> tx_to = Some other_recipient, tx_value = 0,
                           tx_data = OtherData,
                           tx_blockNumber = Some 4244 \<rparr>
               else if h = native_txHash
               then Some \<lparr> tx_to = Some test_recipient, tx_value = 1000000000000000,
                           tx_data = OtherData,
                           tx_blockNumber = Some 4245 \<rparr>
               else None),
       getTransactionReceipt =
         (\<lambda>h. if h \<in> {test_txHash, transfer_elsewhere_txHash, plain_txHash, native_txHash}
               then Some (Some 1) else None) \<rparr>"

definition demo_config :: PaymentMiddlewareConfig where
  "demo_config =
     \<lparr> routes = [(''/premium-data'', test_challenge)],
       cfg_provider = Some example_provider,
       verifierContract = None,
       verifierSigner = None,
       verifyOnChain = False,
       verifyTransaction = True,
       markUsed = True \<rparr>"

definition paid_request :: request where
  "paid_request = \<lparr> path = ''/premium-data'', x_payment_proof = Some (B64_JSON_object proof_nonce1) \<rparr>"

text \<open>
  Two more proofs for the route above. The first names the transfer of 1 minor unit to the
  other recipient; the second names the plain transaction and claims the payment the
  challenge asks for.
\<close>

definition proof_elsewhere :: jsobj where
  "proof_elsewhere =
     [(''txHash'', JStr transfer_elsewhere_txHash),
      (''token'', JStr usdc_base_sepolia),
      (''recipient'', JStr other_recipient),
      (''amount'', JStr ''1''),
      (''timestamp'', JNum 1700000000),
      (''nonce'', JNum 1),
      (''signature'', JStr test_signature)]"

definition proof_plain :: jsobj where
  "proof_plain =
     [(''txHash'', JStr plain_txHash),
      (''token'', JStr usdc_base_sepolia),
      (''recipient'', JStr test_recipient),
      (''amount'', JStr ''1000''),
      (''timestamp'', JNum 1700000000),
      (''nonce'', JNum 1),
      (''signature'', JStr test_signature)]"

definition proof_nonce1_hash :: string where
  "proof_nonce1_hash = ''0x1111111111111111111111111111111111111111111111111111111111111111:0x036CbD53842c5426634e7929541eC2318f3dCF7e:0xf81dc05616C47447Ffdc5a866642cDD26271D37b:1000:1700000000:1''"

text \<open>
  For the standalone middleware: a challenge in a token the registry does not list, and a
  proof that names the native transfer. The stand-in for the floating-point comparison
  compares the two decimal strings exactly, at 18 fraction digits.
\<close>

definition decimal_less :: "jsval \<Rightarrow> string \<Rightarrow> bool" where
  "decimal_less a b =
     (case a of
        JStr s \<Rightarrow>
          (case parseUnits s 18 of
             None \<Rightarrow> False
           | Some x \<Rightarrow> (case parseUnits b 18 of None \<Rightarrow> False | Some y \<Rightarrow> x < y))
      | _ \<Rightarrow> False)"

definition example_standalone_lib :: standalone_lib where
  "example_standalone_lib =
     \<lparr> verifyMessage =
         (\<lambda>proof. case getProp proof ''signature'' of JStr s \<Rightarrow> Some example_payer | _ \<Rightarrow> None),
       parseFloat_less = decimal_less \<rparr>"

definition eth_challenge :: string where
  "eth_challenge = ''eth:base_sepolia:0xf81dc05616C47447Ffdc5a866642cDD26271D37b?amount=0.001''"

definition parsed_eth_challenge :: PaymentChallenge where
  "parsed_eth_challenge =
     \<lparr> raw = eth_challenge, token = ''eth'', chain = ''base_sepolia'',
       recipient = JStr test_recipient, amount = ''0.001'' \<rparr>"

definition native_proof :: jsobj where
  "native_proof =
     [(''txHash'', JStr native_txHash),
      (''recipient'', JStr test_recipient),
      (''amount'', JStr ''0.001''),
      (''nonce'', JNum 1),
      (''signature'', JStr test_signature)]"

text \<open>
  A challenge whose token is named like a member that every object inherits, as the client
  holds it after parsing; and built-in objects that have no property to read (the examples
  never read one: their chain names are chains of the registries).
\<close>

definition constructor_challenge :: PaymentChallenge where
  "constructor_challenge =
     \<lparr> raw = ''constructor:base:0xf81dc05616C47447Ffdc5a866642cDD26271D37b'',
       token = ''constructor'', chain = ''base'', recipient = JStr test_recipient,
       amount = ''0.001'' \<rparr>"

definition no_builtins :: object_builtins where
  "no_builtins m t = Inr Nullish"

text \<open>
  For the verifier contract: a freshly deployed contract, stand-ins for the hash and the
  signer recovery, and the arguments of a first proof of the signer with address 7.
\<close>

definition example_crypto :: crypto where
  "example_crypto =
     \<lparr> keccak256_packed = (\<lambda>txh tok rcp amt ts n. txh + amt + ts + n),
       recover = (\<lambda>h sg. if sg = [] then None else Some 7) \<rparr>"

definition deployed :: PaymentVerifier where
  "deployed = \<lparr> usedProofs = (\<lambda>h. False), nonces = (\<lambda>a. 0) \<rparr>"

definition example_args :: proofArgs where
  "example_args =
     \<lparr> a_paymentTxHash = 1, a_token = 2, a_recipient = 3, a_amount = 1000,
       a_timestamp = 1700000000, a_nonce = 0, a_signature = [1, 2, 3] \<rparr>"

section \<open>Properties of \<^verbatim>\<open>decodeProof\<close>\<close>

lemma firstMissing_None_iff:
  "firstMissing proof fs = None \<longleftrightarrow> (\<forall>f \<in> set fs. truthy (getProp proof f))"
  by (induction fs) auto

lemma firstMissing_Some_falsy:
  "firstMissing proof fs = Some f \<Longrightarrow> f \<in> set fs \<and> \<not> truthy (getProp proof f)"
  by (induction fs) (auto split: if_splits)

lemma firstMissing_falsy_ex:
  "f \<in> set fs \<Longrightarrow> \<not> truthy (getProp proof f) \<Longrightarrow> \<exists>g. firstMissing proof fs = Some g"
  using firstMissing_None_iff [of "proof" fs] by (cases "firstMissing proof fs") auto

lemmas parseUnits_eval = parseUnits_def isDigit_def digitsVal_def digitVal_def Let_def

lemmas example_defs =
  test_recipient_def other_recipient_def usdc_base_sepolia_def ZeroAddress_def
  test_txHash_def test_signature_def transfer_elsewhere_txHash_def plain_txHash_def
  native_txHash_def

lemma parse_test_challenge:
  "PaymentChallenge_parse known_getAddress test_challenge = Inr parsed_test_challenge"
  by (simp add: PaymentChallenge_parse_def test_challenge_def parsed_test_challenge_def
      known_getAddress_def example_defs element_def URLSearchParams_def toLowerCase_def
      lowerChar_def Let_def)

lemma proofObject_nonce0:
  "proofObject builtins known_getAddress
     \<lparr> txHash = test_txHash, challenge = parsed_test_challenge, nonce = JNum 0,
       timestamp = JNum 1700000000 \<rparr> test_signature = Inr proof_nonce0"
  by (simp add: proofObject_def PaymentChallenge_getTokenAddress_def registry_lookup_def
      client_tokens_def parsed_test_challenge_def known_getAddress_def getAmountWei_def
      parseUnits_eval showInt_def proof_nonce0_def example_defs)

lemma decode_nonce0:
  "decodeProof (B64_JSON_object proof_nonce0) =
     Inl (InvalidProofFormat (MissingRequiredField ''nonce''))"
  by (simp add: decodeProof_def required_def proof_nonce0_def getProp_def example_defs)

text \<open>
  Where the round trip does hold: when every field of the proof object the client builds is
  truthy, decoding the encoded header gives that object back, signature included.
\<close>

lemma decode_encode_truthy:
  assumes "proofObject builtins getAddress pp sg = Inr obj"
      and "\<forall>f \<in> set required. truthy (getProp obj f)"
  shows "\<exists>h. encode builtins getAddress pp sg = Inr h \<and> decodeProof h = Inr obj"
proof -
  from assms(1) obtain tok wei where obj:
    "obj = [(''txHash'', JStr (txHash pp)), (''token'', tok),
            (''recipient'', recipient (challenge pp)), (''amount'', JStr (showInt wei)),
            (''timestamp'', timestamp pp), (''nonce'', nonce pp), (''signature'', JStr sg)]"
    by (auto simp: proofObject_def split: sum.splits)
  have nz: "\<And>v. truthy v \<Longrightarrow> v \<noteq> JUndefined \<and> json_value v = v"
    by (case_tac v) auto
  from assms(2) have t: "truthy tok" "truthy (recipient (challenge pp))"
      "truthy (timestamp pp)" "truthy (nonce pp)"
    by (simp_all add: obj required_def getProp_def)
  have "JSON_stringify_base64 obj = B64_JSON_object obj"
    using nz [OF t(1)] nz [OF t(2)] nz [OF t(3)] nz [OF t(4)]
    by (simp add: JSON_stringify_base64_def obj)
  moreover have "firstMissing obj required = None"
    using assms(2) firstMissing_None_iff by blast
  ultimately show ?thesis
    using assms(1) by (simp add: encode_def decodeProof_def)
qed

text \<open>
  C3. The round trip \<^verbatim>\<open>decode(encode(fields, signature)) == fields\<close> fails on the proof
  of the repository's own test \<^verbatim>\<open>decodeProof: Decode valid proof\<close>: the test challenge
  parses, the client encodes the proof with nonce 0 (its default), and \<^verbatim>\<open>decodeProof\<close>
  throws \<^verbatim>\<open>Invalid proof format: Missing required field: nonce\<close> on the result instead of
  returning the fields.
\<close>

theorem decode_encode_nonce_zero:
  "PaymentChallenge_parse known_getAddress test_challenge = Inr parsed_test_challenge \<and>
   encode builtins known_getAddress
     \<lparr> txHash = test_txHash, challenge = parsed_test_challenge, nonce = JNum 0,
       timestamp = JNum 1700000000 \<rparr> test_signature = Inr (B64_JSON_object proof_nonce0) \<and>
   decodeProof (B64_JSON_object proof_nonce0) =
     Inl (InvalidProofFormat (MissingRequiredField ''nonce''))"
proof -
  have "JSON_stringify_base64 proof_nonce0 = B64_JSON_object proof_nonce0"
    by (simp add: JSON_stringify_base64_def proof_nonce0_def)
  then show ?thesis
    using parse_test_challenge proofObject_nonce0 decode_nonce0 by (simp add: encode_def)
qed

text \<open>
  C10. A header whose JSON object carries all seven required keys, one of them with a falsy
  value, is rejected with the missing-required-field error naming a required field whose
  value is falsy; a proof is returned only when all seven values are truthy. The number 0 is
  falsy, so a proof with \<^verbatim>\<open>nonce: 0\<close> is rejected.
\<close>

theorem decodeProof_rejects_falsy_field:
  assumes "\<forall>f \<in> set required. f \<in> fst ` set proof"
      and "f \<in> set required"
      and "\<not> truthy (getProp proof f)"
  shows "(\<exists>g \<in> set required. \<not> truthy (getProp proof g) \<and>
            decodeProof (B64_JSON_object proof) = Inl (InvalidProofFormat (MissingRequiredField g)))
         \<and> (\<forall>p. decodeProof (B64_JSON_object proof) \<noteq> Inr p)
         \<and> (\<forall>proof' p. decodeProof (B64_JSON_object proof') = Inr p \<longrightarrow>
               (\<forall>g \<in> set required. truthy (getProp proof' g)))"
proof -
  obtain g where g: "firstMissing proof required = Some g"
    using firstMissing_falsy_ex [OF assms(2,3)] by blast
  have "g \<in> set required \<and> \<not> truthy (getProp proof g)"
    using firstMissing_Some_falsy [OF g] .
  moreover have "decodeProof (B64_JSON_object proof) = Inl (InvalidProofFormat (MissingRequiredField g))"
    using g by (simp add: decodeProof_def)
  moreover have "\<forall>proof' p. decodeProof (B64_JSON_object proof') = Inr p \<longrightarrow>
               (\<forall>g \<in> set required. truthy (getProp proof' g))"
    using firstMissing_None_iff [of _ required]
    by (auto simp: decodeProof_def split: option.splits)
  ultimately show ?thesis by auto
qed

theorem decodeProof_rejects_falsy_field_witness:
  "set required \<subseteq> fst ` set proof_nonce0 \<and> ''nonce'' \<in> set required \<and>
   \<not> truthy (getProp proof_nonce0 ''nonce'') \<and>
   (\<exists>g \<in> set required. \<not> truthy (getProp proof_nonce0 g) \<and>
      decodeProof (B64_JSON_object proof_nonce0) = Inl (InvalidProofFormat (MissingRequiredField g))) \<and>
   (\<forall>p. decodeProof (B64_JSON_object proof_nonce0) \<noteq> Inr p)"
proof -
  have h1: "\<forall>f \<in> set required. f \<in> fst ` set proof_nonce0"
    by (simp add: required_def proof_nonce0_def)
  have h2: "''nonce'' \<in> set required" by (simp add: required_def)
  have h3: "\<not> truthy (getProp proof_nonce0 ''nonce'')"
    by (simp add: proof_nonce0_def getProp_def)
  from decodeProof_rejects_falsy_field [OF h1 h2 h3] h1 h2 h3 show ?thesis by blast+
qed

section \<open>The server middleware on the example data\<close>

lemma route_demo: "getChallengeForRoute demo_config ''/premium-data'' = Some test_challenge"
  by (simp add: getChallengeForRoute_def demo_config_def test_challenge_def)

lemma awaits_demo: "awaits demo_config"
  by (simp add: awaits_def demo_config_def)

lemma hash_nonce1: "solidityPackedKeccak256 example_lib proof_nonce1 = Some proof_nonce1_hash"
  by (simp add: example_lib_def example_hash_def proof_nonce1_def getProp_def showInt_def
      example_defs proof_nonce1_hash_def)

lemma decode_nonce1: "decodeProof (B64_JSON_object proof_nonce1) = Inr proof_nonce1"
  by (simp add: decodeProof_def required_def proof_nonce1_def getProp_def example_defs)

lemma window_nonce1:
  "1699999940 \<le> ms div 1000 \<Longrightarrow> ms div 1000 \<le> 1700000300 \<Longrightarrow>
   \<not> timestampOutOfWindow (ms div 1000) (getProp proof_nonce1 ''timestamp'')"
  by (simp add: timestampOutOfWindow_def js_less_def js_greater_def proof_nonce1_def getProp_def)

lemma sig_nonce1: "verifyProofSignature example_lib proof_nonce1 = Some example_payer"
  by (simp add: verifyProofSignature_def hash_nonce1)
     (simp add: example_lib_def proof_nonce1_def getProp_def)

lemma begin_nonce1:
  assumes "1699999940 \<le> ms div 1000" "ms div 1000 \<le> 1700000300"
  shows "middleware_begin example_lib demo_config cache paid_request ms =
     (if isProofUsedInCache cache proof_nonce1_hash
      then Answered (Status403 PaymentProofAlreadyUsed)
      else Continue proof_nonce1 proof_nonce1_hash)"
  using window_nonce1 [OF assms]
  by (simp add: middleware_begin_def paid_request_def route_demo decode_nonce1 sig_nonce1
      hash_nonce1)

lemma verify_tx_nonce1: "verifyPaymentTransaction example_provider proof_nonce1"
  by (simp add: verifyPaymentTransaction_def example_provider_def proof_nonce1_def getProp_def
      toLowerCase_def lowerChar_def example_defs)

lemma finish_nonce1:
  "middleware_finish demo_config cache proof_nonce1 h ms = (Next, markProofInCache cache h ms)"
  by (simp add: middleware_finish_def demo_config_def verify_tx_nonce1)

text \<open>
  Served one after the other, the second presentation of a proof is refused: the entry just
  inserted survives the sweep of its own insertion.
\<close>

lemma markProofInCache_keeps_inserted: "isProofUsedInCache (markProofInCache cache h ms) h"
  by (simp add: isProofUsedInCache_def markProofInCache_def)

lemma sequential_replay_denied_example:
  "answered (serve_all example_lib demo_config fresh_server
     [Arrives 1 paid_request 1700000100000, Resumes 1 1700000100200,
      Arrives 2 paid_request 1700000100205, Resumes 2 1700000100210]) =
   [(1, Next), (2, Status403 PaymentProofAlreadyUsed)]"
  by (simp add: serve_all_def serve_def begin_nonce1 finish_nonce1 awaits_demo fresh_server_def
      isProofUsedInCache_def markProofInCache_def)

text \<open>
  C1. Admission is not one atomic check-and-insert. The check
  (\<^verbatim>\<open>isProofUsedInCache\<close>) runs before the awaited transaction verification and the
  insert (\<^verbatim>\<open>markProofInCache\<close>) after it. Two requests that present the identical proof,
  the second arriving while the first waits for the provider, both pass the check and both
  reach \<^verbatim>\<open>next()\<close>: two admissions for one hash.
\<close>

theorem concurrent_replay_granted_twice:
  "answered (serve_all example_lib demo_config fresh_server
     [Arrives 1 paid_request 1700000100000, Arrives 2 paid_request 1700000100005,
      Resumes 1 1700000100200, Resumes 2 1700000100210]) = [(1, Next), (2, Next)]"
  by (simp add: serve_all_def serve_def begin_nonce1 finish_nonce1 awaits_demo fresh_server_def
      isProofUsedInCache_def)

lemma verify_elsewhere: "verifyPaymentTransaction example_provider proof_elsewhere"
  by (simp add: verifyPaymentTransaction_def example_provider_def proof_elsewhere_def
      getProp_def example_defs toLowerCase_def lowerChar_def)

lemma decode_elsewhere: "decodeProof (B64_JSON_object proof_elsewhere) = Inr proof_elsewhere"
  by (simp add: decodeProof_def required_def proof_elsewhere_def getProp_def example_defs)

lemma hash_elsewhere: "\<exists>h. solidityPackedKeccak256 example_lib proof_elsewhere = Some h"
  by (simp add: example_lib_def example_hash_def proof_elsewhere_def getProp_def showInt_def)

lemma sig_elsewhere: "verifyProofSignature example_lib proof_elsewhere = Some example_payer"
  using hash_elsewhere
  by (auto simp add: verifyProofSignature_def)
     (simp add: example_lib_def proof_elsewhere_def getProp_def)

lemma window_elsewhere:
  "\<not> timestampOutOfWindow (1700000100000 div 1000) (getProp proof_elsewhere ''timestamp'')"
  by (simp add: timestampOutOfWindow_def js_less_def js_greater_def proof_elsewhere_def
      getProp_def)

lemma finish_elsewhere:
  "middleware_finish demo_config cache proof_elsewhere h ms = (Next, markProofInCache cache h ms)"
  by (simp add: middleware_finish_def demo_config_def verify_elsewhere)

text \<open>
  C4. The middleware of src/src/middleware.js never compares the proof with the challenge
  of the route. The route asks for 0.001 USDC (1000 minor units) to the test recipient; a
  proof for a transfer of 1 minor unit to another recipient is granted (\<^verbatim>\<open>next()\<close>),
  where the claim requires a denial for the recipient and for the amount.
\<close>

theorem wrong_recipient_and_amount_granted:
  "PaymentChallenge_parse known_getAddress test_challenge = Inr parsed_test_challenge \<and>
   recipient parsed_test_challenge = JStr test_recipient \<and>
   getAmountWei parsed_test_challenge = Inr 1000 \<and>
   getProp proof_elsewhere ''recipient'' = JStr other_recipient \<and>
   toLowerCase other_recipient \<noteq> toLowerCase test_recipient \<and>
   getProp proof_elsewhere ''amount'' = JStr ''1'' \<and>
   fst (paymentMiddleware example_lib demo_config Map.empty
          \<lparr> path = ''/premium-data'', x_payment_proof = Some (B64_JSON_object proof_elsewhere) \<rparr>
          1700000100000 1700000100200) = Next"
proof -
  have a: "getAmountWei parsed_test_challenge = Inr 1000"
    by (simp add: getAmountWei_def parsed_test_challenge_def parseUnits_eval)
  have b: "toLowerCase other_recipient \<noteq> toLowerCase test_recipient"
    by (simp add: example_defs toLowerCase_def lowerChar_def)
  obtain h where h: "solidityPackedKeccak256 example_lib proof_elsewhere = Some h"
    using hash_elsewhere by blast
  have c: "fst (paymentMiddleware example_lib demo_config Map.empty
          \<lparr> path = ''/premium-data'', x_payment_proof = Some (B64_JSON_object proof_elsewhere) \<rparr>
          1700000100000 1700000100200) = Next"
    using window_elsewhere
    by (simp add: paymentMiddleware_def middleware_begin_def route_demo decode_elsewhere h
        sig_elsewhere isProofUsedInCache_def finish_elsewhere)
  show ?thesis using parse_test_challenge a b c
    by (simp add: parsed_test_challenge_def proof_elsewhere_def getProp_def)
qed

text \<open>
  C5. \<^verbatim>\<open>verifyPaymentTransaction\<close> of src/src/middleware.js looks at the call data only
  when it starts with the transfer selector, and never at the transaction's direct
  recipient. For a proof that names the USDC contract as its token, it accepts a confirmed
  transaction that is sent to another address and calls nothing.
\<close>

theorem non_transfer_transaction_accepted:
  "getProp proof_plain ''token'' = JStr usdc_base_sepolia \<and>
   getTransaction example_provider plain_txHash =
     Some \<lparr> tx_to = Some other_recipient, tx_value = 0, tx_data = OtherData,
            tx_blockNumber = Some 4244 \<rparr> \<and>
   toLowerCase other_recipient \<noteq> toLowerCase usdc_base_sepolia \<and>
   verifyPaymentTransaction example_provider proof_plain = True"
  by (simp add: verifyPaymentTransaction_def example_provider_def proof_plain_def getProp_def
      example_defs toLowerCase_def lowerChar_def)

text \<open>
  The standalone middleware does make both comparisons: a proof that passes the format and
  signature checks is refused when its recipient differs from the challenge's, and when
  its amount compares below the challenge's.
\<close>

lemma standalone_recipient_and_amount_checked:
  assumes "cs \<noteq> []"
      and "parseChallenge getAddress cs = Inr ch"
      and "truthy (getProp proof ''txHash'')" and "truthy (getProp proof ''signature'')"
      and "truthy (getProp proof ''amount'')"
      and "verifyMessage lib proof = Some signer"
      and "getProp proof ''recipient'' = JStr r" and "r \<noteq> []"
  shows "toLowerCase r \<noteq> toLowerCase (pc_recipient ch) \<Longrightarrow>
         standalone_paymentMiddleware builtins lib getAddress prov vt (Some cs)
           (Some (B64_JSON_object proof)) = Forbidden403 PaymentRecipientMismatch"
    and "toLowerCase r = toLowerCase (pc_recipient ch) \<Longrightarrow>
         parseFloat_less lib (getProp proof ''amount'') (pc_amount ch) \<Longrightarrow>
         standalone_paymentMiddleware builtins lib getAddress prov vt (Some cs)
           (Some (B64_JSON_object proof)) = Forbidden403 InsufficientPaymentAmount"
  using assms by (simp_all add: standalone_paymentMiddleware_def)

text \<open>
  \<^verbatim>\<open>verifyPaymentTransaction\<close> of the standalone middleware, called with a token
  address, does what the server middleware's function of the same name leaves out: it
  succeeds exactly for a transfer call on the token contract to the expected recipient of
  at least the expected amount, and a call to another contract or an \<^verbatim>\<open>approve\<close>
  call is refused with its own message.
\<close>

lemma standalone_token_transfer_only:
  assumes "ta \<noteq> []" and "ta \<noteq> ZeroAddress"
  shows "(standalone_verifyPaymentTransaction prov h rcpt amt (Str ta) = Inr True \<longleftrightarrow>
           (\<exists>tx target dest a w.
              getTransaction prov h = Some tx \<and> tx_to tx = Some target \<and>
              toLowerCase target = toLowerCase ta \<and> tx_data tx = TransferCall dest a \<and>
              toLowerCase dest = toLowerCase rcpt \<and> parseUnits amt 6 = Some w \<and> w \<le> int a))"
    and "getTransaction prov h = Some tx \<Longrightarrow> tx_to tx = Some target \<Longrightarrow>
         toLowerCase target \<noteq> toLowerCase ta \<Longrightarrow>
         standalone_verifyPaymentTransaction prov h rcpt amt (Str ta) =
           Inl TransactionNotToTokenContract"
    and "getTransaction prov h = Some tx \<Longrightarrow> tx_to tx = Some target \<Longrightarrow>
         toLowerCase target = toLowerCase ta \<Longrightarrow> tx_data tx = ApproveCall spender a \<Longrightarrow>
         standalone_verifyPaymentTransaction prov h rcpt amt (Str ta) =
           Inl TransactionIsNotAValidTransfer"
  using assms
  by (auto simp: standalone_verifyPaymentTransaction_def
      split: option.splits calldata.splits if_splits)

text \<open>
  A token address that is not a string makes the same function throw a TypeError, whatever
  the transaction.
\<close>

lemma standalone_non_string_token_throws:
  "getTransaction prov h = Some tx \<Longrightarrow>
   standalone_verifyPaymentTransaction prov h rcpt amt NonString = Inl VerifyTypeError"
  by (simp add: standalone_verifyPaymentTransaction_def split: option.splits)

section \<open>The freshness window\<close>

lemma timestamp_window_boundary:
  "\<not> timestampOutOfWindow now (JNum (now - 300)) \<and> \<not> timestampOutOfWindow now (JNum (now + 60)) \<and>
   timestampOutOfWindow now (JNum (now - 301)) \<and> timestampOutOfWindow now (JNum (now + 61))"
  by (simp add: timestampOutOfWindow_def js_less_def js_greater_def)

text \<open>
  C2. At server time \<open>now\<close> the timestamp check lets \<open>now - 300\<close> and \<open>now + 60\<close>
  pass and rejects \<open>now - 301\<close> and \<open>now + 61\<close>. In the middleware, where \<open>now\<close> is
  the clock in whole seconds: a decoded proof whose hash is not in the cache goes on to the
  signature check in the first two cases and is answered with
  \<^verbatim>\<open>Payment proof expired or invalid timestamp\<close> in the other two.
\<close>

theorem freshness_boundary:
  assumes "getChallengeForRoute config (path req) = Some ch"
      and "x_payment_proof req = Some proofHeader"
      and "decodeProof proofHeader = Inr proof"
      and "solidityPackedKeccak256 lib proof = Some h"
      and "\<not> isProofUsedInCache cache h"
      and "getProp proof ''timestamp'' = JNum ts"
  shows "(\<not> timestampOutOfWindow now (JNum (now - 300)) \<and>
          \<not> timestampOutOfWindow now (JNum (now + 60)) \<and>
          timestampOutOfWindow now (JNum (now - 301)) \<and>
          timestampOutOfWindow now (JNum (now + 61))) \<and>
         (ts = ms div 1000 - 300 \<or> ts = ms div 1000 + 60 \<longrightarrow>
            middleware_begin lib config cache req ms =
              (case verifyProofSignature lib proof of
                 None \<Rightarrow> Answered (Status403 InvalidPaymentProof)
               | Some signer \<Rightarrow> Continue proof h)) \<and>
         (ts = ms div 1000 - 301 \<or> ts = ms div 1000 + 61 \<longrightarrow>
            middleware_begin lib config cache req ms = Answered (Status403 PaymentProofExpired))"
proof -
  have "ts = ms div 1000 - 300 \<or> ts = ms div 1000 + 60 \<Longrightarrow>
        \<not> timestampOutOfWindow (ms div 1000) (JNum ts)"
    using timestamp_window_boundary [of "ms div 1000"] by auto
  moreover have "ts = ms div 1000 - 301 \<or> ts = ms div 1000 + 61 \<Longrightarrow>
        timestampOutOfWindow (ms div 1000) (JNum ts)"
    using timestamp_window_boundary [of "ms div 1000"] by auto
  ultimately show ?thesis
    using assms timestamp_window_boundary [of now]
    by (auto simp: middleware_begin_def)
qed

text \<open>
  The example proof carries the timestamp 1700000000: it passes while the server's clock
  reads 1699999940 to 1700000300 seconds and is expired one second earlier or later.
\<close>

theorem freshness_boundary_witness:
  "middleware_begin example_lib demo_config Map.empty paid_request 1700000300999 =
     Continue proof_nonce1 proof_nonce1_hash \<and>
   middleware_begin example_lib demo_config Map.empty paid_request 1699999940000 =
     Continue proof_nonce1 proof_nonce1_hash \<and>
   middleware_begin example_lib demo_config Map.empty paid_request 1700000301000 =
     Answered (Status403 PaymentProofExpired) \<and>
   middleware_begin example_lib demo_config Map.empty paid_request 1699999939999 =
     Answered (Status403 PaymentProofExpired)"
proof -
  have r: "getChallengeForRoute demo_config (path paid_request) = Some test_challenge"
    by (simp add: paid_request_def route_demo)
  have p: "x_payment_proof paid_request = Some (B64_JSON_object proof_nonce1)"
    by (simp add: paid_request_def)
  have c: "\<not> isProofUsedInCache Map.empty proof_nonce1_hash"
    by (simp add: isProofUsedInCache_def)
  have t: "getProp proof_nonce1 ''timestamp'' = JNum 1700000000"
    by (simp add: proof_nonce1_def getProp_def)
  note fb = freshness_boundary [OF r p decode_nonce1 hash_nonce1 c t]
  show ?thesis
    using fb [of _ 1700000300999] fb [of _ 1699999940000] fb [of _ 1700000301000]
      fb [of _ 1699999939999]
    by (simp add: sig_nonce1)
qed

section \<open>Token resolution\<close>

lemma registry_pairs_own:
  assumes "map_of tokens c = Some es" and "map_of es t = Some addr"
  shows "(c, t) \<in> set (registry_pairs tokens)"
proof -
  from assms(1) have "(c, es) \<in> set tokens" by (rule map_of_SomeD)
  moreover from assms(2) have "(t, addr) \<in> set es" by (rule map_of_SomeD)
  ultimately show ?thesis by (force simp: registry_pairs_def)
qed

text \<open>
  A pair that the registry does not list, neither of whose names is the name of an inherited
  member, resolves to \<^verbatim>\<open>null\<close>, whatever the built-in objects of the runtime are.
\<close>

lemma registry_lookup_absent:
  assumes "(c, t) \<notin> set (registry_pairs tokens)"
      and "c \<notin> set Object_prototype_members" and "t \<notin> set Object_prototype_members"
  shows "registry_lookup builtins tokens c t = Inr Nullish"
proof (cases "map_of tokens c")
  case None
  with assms(2) show ?thesis by (simp add: registry_lookup_def)
next
  case (Some es)
  with assms(1) have "map_of es t = None"
    using registry_pairs_own [of tokens c es t] by (cases "map_of es t") auto
  with Some assms(3) show ?thesis by (simp add: registry_lookup_def)
qed

text \<open>
  A token name that is the name of an inherited member, under a chain of the registry that
  has no own entry of that name, resolves to the inherited member, which is not a string.
\<close>

lemma registry_lookup_inherited:
  assumes "map_of tokens c = Some es" and "map_of es t = None"
      and "t \<in> set Object_prototype_members"
  shows "registry_lookup builtins tokens c t = Inr NonString"
  using assms by (simp add: registry_lookup_def)

lemma lower_test_recipient:
  "toLowerCase test_recipient = ''0xf81dc05616c47447ffdc5a866642cdd26271d37b''"
  by (simp add: toLowerCase_def lowerChar_def example_defs)

lemma known_getAddress_nope: "known_getAddress ''nope'' = None"
  by (simp add: known_getAddress_def lower_test_recipient) (simp add: example_defs)

lemma known_getAddress_test: "known_getAddress test_recipient = Some test_recipient"
  by (simp add: known_getAddress_def)

lemma parse_eth_challenge:
  "parseChallenge known_getAddress eth_challenge =
     Inr \<lparr> pc_token = ''eth'', pc_chain = ''base_sepolia'', pc_recipient = test_recipient,
           pc_amount = ''0.001'' \<rparr>"
  by (simp add: parseChallenge_def eth_challenge_def known_getAddress_def example_defs
      element_def URLSearchParams_def toLowerCase_def lowerChar_def Let_def)

lemma eth_unregistered: "getTokenAddress builtins ''base_sepolia'' ''eth'' = Inr Nullish"
  by (simp add: getTokenAddress_def registry_lookup_def standalone_tokens_def
      Object_prototype_members_def)

lemma constructor_standalone:
  "getTokenAddress builtins ''base'' ''constructor'' = Inr NonString"
  by (simp add: getTokenAddress_def registry_lookup_def standalone_tokens_def
      Object_prototype_members_def)

lemma constructor_client:
  "PaymentChallenge_getTokenAddress builtins getAddress constructor_challenge =
     Inl InvalidAddress"
  by (simp add: PaymentChallenge_getTokenAddress_def registry_lookup_def client_tokens_def
      Object_prototype_members_def constructor_challenge_def)

lemma native_verify:
  "standalone_verifyPaymentTransaction example_provider native_txHash test_recipient ''0.001''
     Nullish = Inr True"
  by (simp add: standalone_verifyPaymentTransaction_def example_provider_def example_defs
      parseEther_def parseUnits_eval)

lemma decimal_not_less: "\<not> decimal_less (JStr ''0.001'') ''0.001''"
  by (simp add: decimal_less_def parseUnits_eval)

lemma native_granted:
  "standalone_paymentMiddleware builtins example_standalone_lib known_getAddress
     example_provider True (Some eth_challenge) (Some (B64_JSON_object native_proof)) =
   CallsNext"
proof -
  have 1: "eth_challenge \<noteq> []" by (simp add: eth_challenge_def)
  show ?thesis
    using decimal_not_less
    by (simp add: standalone_paymentMiddleware_def 1 parse_eth_challenge native_proof_def
        getProp_def example_standalone_lib_def eth_unregistered native_verify)
       (simp add: example_defs)
qed

text \<open>
  C6, as stated, fails on the standalone middleware. The pair (base_sepolia, eth) is not in
  its registry and resolves to \<^verbatim>\<open>null\<close>; the middleware hands that \<^verbatim>\<open>null\<close> to
  \<^verbatim>\<open>verifyPaymentTransaction\<close>, which takes the native-currency branch, accepts a
  plain transfer of 0.001 of the native currency, and the request is granted. And not
  every unlisted pair resolves to \<^verbatim>\<open>null\<close>: the pair (base, constructor) is in neither
  registry, yet the standalone resolution returns the function that every object inherits
  under the name \<^verbatim>\<open>constructor\<close>, on which \<^verbatim>\<open>verifyPaymentTransaction\<close> throws a
  TypeError, and the client's resolution throws the library's invalid-address error. The
  runtime's built-in objects are not consulted by any of this; \<open>no_builtins\<close> stands for
  them.
\<close>

theorem null_token_verified_as_native:
  "(''base_sepolia'', ''eth'') \<notin> set (registry_pairs standalone_tokens) \<and>
   getTokenAddress no_builtins ''base_sepolia'' ''eth'' = Inr Nullish \<and>
   standalone_verifyPaymentTransaction example_provider native_txHash test_recipient ''0.001''
     Nullish = Inr True \<and>
   standalone_paymentMiddleware no_builtins example_standalone_lib known_getAddress
     example_provider True (Some eth_challenge) (Some (B64_JSON_object native_proof)) =
     CallsNext \<and>
   (''base'', ''constructor'') \<notin> set (registry_pairs standalone_tokens) \<and>
   (''base'', ''constructor'') \<notin> set (registry_pairs client_tokens) \<and>
   getTokenAddress no_builtins ''base'' ''constructor'' = Inr NonString \<and>
   standalone_verifyPaymentTransaction example_provider native_txHash test_recipient ''0.001''
     NonString = Inl VerifyTypeError \<and>
   PaymentChallenge_parse known_getAddress
     ''constructor:base:0xf81dc05616C47447Ffdc5a866642cDD26271D37b'' =
     Inr constructor_challenge \<and>
   PaymentChallenge_getTokenAddress no_builtins known_getAddress constructor_challenge =
     Inl InvalidAddress \<and>
   executePayment no_builtins known_getAddress (\<lambda>tokenAddress to wei. Inr native_txHash)
     constructor_challenge = Inl InvalidAddress"
proof -
  have 1: "(''base_sepolia'', ''eth'') \<notin> set (registry_pairs standalone_tokens)"
      "(''base'', ''constructor'') \<notin> set (registry_pairs standalone_tokens)"
      "(''base'', ''constructor'') \<notin> set (registry_pairs client_tokens)"
    by (simp_all add: registry_pairs_def standalone_tokens_def client_tokens_def)
  have 2: "standalone_verifyPaymentTransaction example_provider native_txHash test_recipient
             ''0.001'' NonString = Inl VerifyTypeError"
    by (rule standalone_non_string_token_throws [where tx = "\<lparr> tx_to = Some test_recipient,
          tx_value = 1000000000000000, tx_data = OtherData, tx_blockNumber = Some 4245 \<rparr>"])
       (simp add: example_provider_def example_defs)
  have 3: "PaymentChallenge_parse known_getAddress
             ''constructor:base:0xf81dc05616C47447Ffdc5a866642cDD26271D37b'' =
           Inr constructor_challenge"
    by (simp add: PaymentChallenge_parse_def constructor_challenge_def known_getAddress_def
        example_defs element_def URLSearchParams_def toLowerCase_def lowerChar_def Let_def)
  have 4: "executePayment no_builtins known_getAddress
             (\<lambda>tokenAddress to wei. Inr native_txHash) constructor_challenge =
           Inl InvalidAddress"
    by (simp add: executePayment_def constructor_client)
  show ?thesis
    using 1 2 3 4 by (simp add: eth_unregistered native_verify native_granted
        constructor_standalone constructor_client)
qed

text \<open>
  C6, amended. A (chain, token) pair that the registry does not list, neither of whose
  names is the name of a member that every object inherits (\<open>Object_prototype_members\<close>),
  resolves to \<^verbatim>\<open>null\<close>, in the standalone middleware and in the client, whatever the
  built-in objects of the runtime are. The client's payment handler stops on \<^verbatim>\<open>null\<close>
  with \<^verbatim>\<open>Token address not found\<close> (after the amount has parsed) and never reaches the
  transfer. The standalone middleware's \<^verbatim>\<open>verifyPaymentTransaction\<close> treats \<^verbatim>\<open>null\<close>
  exactly as it treats the zero address: as a payment in the native currency.
\<close>

theorem unresolved_token_is_null:
  assumes "(c, t) \<notin> set (registry_pairs standalone_tokens)"
      and "c \<notin> set Object_prototype_members" and "t \<notin> set Object_prototype_members"
      and "(chain ch, token ch) \<notin> set (registry_pairs client_tokens)"
      and "chain ch \<notin> set Object_prototype_members"
      and "token ch \<notin> set Object_prototype_members"
  shows "getTokenAddress builtins c t = Inr Nullish \<and>
         PaymentChallenge_getTokenAddress builtins getAddress ch = Inr None \<and>
         executePayment builtins getAddress transfer ch =
           (case getAmountWei ch of
              Inl e \<Rightarrow> Inl e
            | Inr w \<Rightarrow> Inl (TokenAddressNotFound (token ch) (chain ch))) \<and>
         standalone_verifyPaymentTransaction prov h r a Nullish =
           standalone_verifyPaymentTransaction prov h r a (Str ZeroAddress)"
proof -
  have 1: "getTokenAddress builtins c t = Inr Nullish"
    using registry_lookup_absent [OF assms(1) assms(2) assms(3)]
    by (simp add: getTokenAddress_def)
  have 2: "PaymentChallenge_getTokenAddress builtins getAddress ch = Inr None"
    using registry_lookup_absent [OF assms(4) assms(5) assms(6)]
    by (simp add: PaymentChallenge_getTokenAddress_def)
  have 3: "standalone_verifyPaymentTransaction prov h r a Nullish =
           standalone_verifyPaymentTransaction prov h r a (Str ZeroAddress)"
    by (cases "getTransaction prov h") (simp_all add: standalone_verifyPaymentTransaction_def)
  show ?thesis using 1 2 3 by (simp add: executePayment_def split: sum.splits)
qed

theorem unresolved_token_is_null_witness:
  "getTokenAddress no_builtins ''base_sepolia'' ''eth'' = Inr Nullish \<and>
   PaymentChallenge_getTokenAddress no_builtins known_getAddress parsed_eth_challenge =
     Inr None \<and>
   executePayment no_builtins known_getAddress (\<lambda>tokenAddress to wei. Inr native_txHash)
     parsed_eth_challenge = Inl (TokenAddressNotFound ''eth'' ''base_sepolia'') \<and>
   standalone_verifyPaymentTransaction example_provider native_txHash test_recipient ''0.001''
     Nullish =
   standalone_verifyPaymentTransaction example_provider native_txHash test_recipient ''0.001''
     (Str ZeroAddress)"
proof -
  have 1: "(''base_sepolia'', ''eth'') \<notin> set (registry_pairs standalone_tokens)"
    by (simp add: registry_pairs_def standalone_tokens_def)
  have 2: "(chain parsed_eth_challenge, token parsed_eth_challenge) \<notin>
             set (registry_pairs client_tokens)"
    by (simp add: registry_pairs_def client_tokens_def parsed_eth_challenge_def)
  have 3: "getAmountWei parsed_eth_challenge = Inr 1000"
    by (simp add: getAmountWei_def parsed_eth_challenge_def parseUnits_eval)
  have 4: "token parsed_eth_challenge = ''eth''" "chain parsed_eth_challenge = ''base_sepolia''"
    by (simp_all add: parsed_eth_challenge_def)
  have 5: "''base_sepolia'' \<notin> set Object_prototype_members"
      "''eth'' \<notin> set Object_prototype_members"
    by (simp_all add: Object_prototype_members_def)
  have 6: "chain parsed_eth_challenge \<notin> set Object_prototype_members"
      "token parsed_eth_challenge \<notin> set Object_prototype_members"
    using 5 by (simp_all add: 4)
  show ?thesis
    using unresolved_token_is_null [OF 1 5 2 6, of no_builtins known_getAddress
        "\<lambda>tokenAddress to wei. Inr native_txHash" example_provider native_txHash
        test_recipient "''0.001''"]
    by (auto simp: 3 4)
qed

section \<open>Challenge parsing\<close>

text \<open>
  C7, as stated, fails. The client's parser keeps a recipient that is not an address, and
  leaves a missing recipient \<^verbatim>\<open>undefined\<close>, instead of failing; and the standalone
  parser accepts an empty token part and a fourth path part.
\<close>

theorem invalid_recipient_passed_through:
  "known_getAddress ''nope'' = None \<and>
   PaymentChallenge_parse known_getAddress ''usdc:base_sepolia:nope'' =
     Inr \<lparr> raw = ''usdc:base_sepolia:nope'', token = ''usdc'', chain = ''base_sepolia'',
           recipient = JStr ''nope'', amount = ''0.001'' \<rparr> \<and>
   PaymentChallenge_parse known_getAddress ''usdc:base_sepolia'' =
     Inr \<lparr> raw = ''usdc:base_sepolia'', token = ''usdc'', chain = ''base_sepolia'',
           recipient = JUndefined, amount = ''0.001'' \<rparr> \<and>
   parseChallenge known_getAddress '':base_sepolia:0xf81dc05616C47447Ffdc5a866642cDD26271D37b:extra'' =
     Inr \<lparr> pc_token = [], pc_chain = ''base_sepolia'', pc_recipient = test_recipient,
           pc_amount = ''0.001'' \<rparr>"
  using known_getAddress_test
  by (simp add: PaymentChallenge_parse_def parseChallenge_def known_getAddress_nope
      element_def URLSearchParams_def toLowerCase_def lowerChar_def Let_def)
     (simp add: example_defs toLowerCase_def lowerChar_def)

text \<open>
  C7, amended. The standalone \<^verbatim>\<open>parseChallenge\<close> fails exactly when the path segment
  has fewer than three colon-separated parts or the third part is not a valid address; when
  it succeeds the recipient is the checksummed form of the third part, and token and chain
  are the lower-cased first and second parts, empty or not, with further parts ignored.
  The client's \<^verbatim>\<open>PaymentChallenge.parse\<close> fails exactly when the path segment has fewer
  than two parts; it stores the checksummed recipient when the third part is a valid
  address, the third part as it is when it is not, and \<^verbatim>\<open>undefined\<close> when there is no
  third part.
\<close>

theorem challenge_parsing:
  "((\<exists>e. parseChallenge getAddress s = Inl e) \<longleftrightarrow>
      (length (pathParts s) < 3 \<or> getAddress (pathParts s ! 2) = None)) \<and>
   (\<forall>ch. parseChallenge getAddress s = Inr ch \<longrightarrow>
      getAddress (pathParts s ! 2) = Some (pc_recipient ch) \<and>
      pc_token ch = toLowerCase (pathParts s ! 0) \<and>
      pc_chain ch = toLowerCase (pathParts s ! 1)) \<and>
   ((\<exists>e. PaymentChallenge_parse getAddress s = Inl e) \<longleftrightarrow> length (pathParts s) < 2) \<and>
   (\<forall>c. PaymentChallenge_parse getAddress s = Inr c \<longrightarrow>
      token c = toLowerCase (pathParts s ! 0) \<and>
      chain c = toLowerCase (pathParts s ! 1) \<and>
      recipient c =
        (if length (pathParts s) < 3 then JUndefined
         else case getAddress (pathParts s ! 2) of
                Some a \<Rightarrow> JStr a
              | None \<Rightarrow> JStr (pathParts s ! 2)))"
proof -
  have ne: "pathParts s \<noteq> []"
    by (cases "hd (split_on CHR ''?'' s)") (auto simp: pathParts_def split: list.splits)
  then have hd0: "hd (pathParts s) = pathParts s ! 0"
    by (simp add: hd_conv_nth)
  show ?thesis
    unfolding parseChallenge_def PaymentChallenge_parse_def Let_def pathParts_def [symmetric] hd0
    by (auto simp: element_def split: option.splits)
qed

theorem challenge_parsing_witness:
  "(\<exists>e. parseChallenge known_getAddress ''usdc:base_sepolia:nope'' = Inl e) \<and>
   (\<exists>e. parseChallenge known_getAddress ''usdc:base_sepolia'' = Inl e) \<and>
   (\<exists>e. PaymentChallenge_parse known_getAddress ''usdc'' = Inl e) \<and>
   \<not> (\<exists>e. PaymentChallenge_parse known_getAddress ''usdc:base_sepolia:nope'' = Inl e) \<and>
   \<not> (\<exists>e. parseChallenge known_getAddress test_challenge = Inl e)"
proof -
  have p1: "pathParts ''usdc:base_sepolia:nope'' = [''usdc'', ''base_sepolia'', ''nope'']"
    by (simp add: pathParts_def)
  have p2: "pathParts ''usdc:base_sepolia'' = [''usdc'', ''base_sepolia'']"
    by (simp add: pathParts_def)
  have p3: "pathParts ''usdc'' = [''usdc'']"
    by (simp add: pathParts_def)
  have p4: "pathParts test_challenge = [''usdc'', ''base_sepolia'', test_recipient]"
    by (simp add: pathParts_def test_challenge_def example_defs)
  note g = known_getAddress_nope known_getAddress_test
  show ?thesis
    using challenge_parsing [of known_getAddress "''usdc:base_sepolia:nope''"]
      challenge_parsing [of known_getAddress "''usdc:base_sepolia''"]
      challenge_parsing [of known_getAddress "''usdc''"]
      challenge_parsing [of known_getAddress test_challenge]
    by (simp add: p1 p2 p3 p4 g)
qed

section \<open>The verifier contract\<close>

lemma used_verify_reverts:
  "usedProofs c (proofHashOf k a) \<Longrightarrow> \<exists>r. verifyPaymentProof k c now a = Inl r"
  by (simp add: verifyPaymentProof_def split: option.splits)

lemma used_mark_reverts:
  "usedProofs c (proofHashOf k a) \<Longrightarrow> \<exists>r. markProofUsed k c now a = Inl r"
  using used_verify_reverts [of c k a now] by (auto simp: markProofUsed_def)

lemma markProofUsed_keeps_used:
  "markProofUsed k c now a = Inr c' \<Longrightarrow> usedProofs c x \<Longrightarrow> usedProofs c' x"
  by (auto simp: markProofUsed_def Let_def split: sum.splits option.splits if_splits)

lemma transact_keeps_used: "usedProofs c x \<Longrightarrow> usedProofs (transact k c call) x"
  using markProofUsed_keeps_used [of k c "fst call" "snd call"]
  by (auto simp: transact_def split: sum.splits)

lemma transact_all_keeps_used: "usedProofs c x \<Longrightarrow> usedProofs (transact_all k c calls) x"
  unfolding transact_all_def
  by (induction calls arbitrary: c) (simp_all add: transact_keeps_used)

lemma markProofUsed_effect:
  assumes "markProofUsed k c now a = Inr c'"
  shows "usedProofs c' (proofHashOf k a) \<and>
         (\<exists>payer. recover k (proofHashOf k a) (a_signature a) = Some payer \<and>
            nonces c payer = a_nonce a \<and>
            unat (nonces c' payer) = unat (nonces c payer) + 1 \<and>
            (\<forall>other. other \<noteq> payer \<longrightarrow> nonces c' other = nonces c other)) \<and>
         \<not> usedProofs c (proofHashOf k a) \<and>
         (\<forall>x. x \<noteq> proofHashOf k a \<longrightarrow> usedProofs c' x = usedProofs c x)"
proof -
  from assms have v: "verifyPaymentProof k c now a = Inr True"
    by (auto simp: markProofUsed_def split: sum.splits if_splits)
  then obtain payer where p: "recover k (proofHashOf k a) (a_signature a) = Some payer"
    and n: "nonces c payer = a_nonce a" and u: "\<not> usedProofs c (proofHashOf k a)"
    by (auto simp: verifyPaymentProof_def split: option.splits if_splits)
  from assms v p obtain m where m: "checked_add (nonces c payer) 1 = Some m"
    and c': "c' = c\<lparr> usedProofs := (usedProofs c)(proofHashOf k a := True),
                     nonces := (nonces c)(payer := m) \<rparr>"
    by (auto simp: markProofUsed_def Let_def split: option.splits)
  from m have "unat m = unat (nonces c payer) + 1"
    by (auto simp: checked_add_def unat_word_ariths split: if_splits)
  with p n u c' show ?thesis by simp
qed

text \<open>
  C8. A \<^verbatim>\<open>markProofUsed\<close> call that succeeds puts the proof's hash into
  \<^verbatim>\<open>usedProofs\<close> and raises the signer's nonce by one. After it, whatever other
  \<^verbatim>\<open>markProofUsed\<close> transactions have run in between and at whatever block time, a
  \<^verbatim>\<open>markProofUsed\<close> call for the same proof reverts, and the transaction leaves the
  contract state, the used set and the nonces, as it was.
\<close>

theorem markProofUsed_commits_once:
  assumes "markProofUsed k c now a = Inr c'"
  shows "usedProofs c' (proofHashOf k a) \<and>
         (\<exists>payer. recover k (proofHashOf k a) (a_signature a) = Some payer \<and>
            nonces c payer = a_nonce a \<and>
            unat (nonces c' payer) = unat (nonces c payer) + 1) \<and>
         (\<forall>calls now'.
            (\<exists>r. markProofUsed k (transact_all k c' calls) now' a = Inl r) \<and>
            transact k (transact_all k c' calls) (now', a) = transact_all k c' calls)"
proof -
  from markProofUsed_effect [OF assms]
  have u: "usedProofs c' (proofHashOf k a)"
    and n: "\<exists>payer. recover k (proofHashOf k a) (a_signature a) = Some payer \<and>
            nonces c payer = a_nonce a \<and>
            unat (nonces c' payer) = unat (nonces c payer) + 1"
    by blast+
  { fix calls now'
    have "usedProofs (transact_all k c' calls) (proofHashOf k a)"
      using u by (rule transact_all_keeps_used)
    then obtain r where r: "markProofUsed k (transact_all k c' calls) now' a = Inl r"
      using used_mark_reverts by blast
    then have "(\<exists>r. markProofUsed k (transact_all k c' calls) now' a = Inl r) \<and>
            transact k (transact_all k c' calls) (now', a) = transact_all k c' calls"
      by (simp add: transact_def) }
  with u n show ?thesis by blast
qed

lemma example_mark:
  "\<exists>c'. markProofUsed example_crypto deployed 1700000010 example_args = Inr c'"
  by (simp add: markProofUsed_def verifyPaymentProof_def checked_add_def proofHashOf_def
      example_crypto_def deployed_def example_args_def Let_def)

text \<open>
  On a freshly deployed contract the first proof of signer 7 is committed, its nonce
  becomes 1, and marking the same proof again ten seconds later reverts.
\<close>

theorem markProofUsed_commits_once_witness:
  "\<exists>c'. markProofUsed example_crypto deployed 1700000010 example_args = Inr c' \<and>
        usedProofs c' (proofHashOf example_crypto example_args) \<and>
        unat (nonces c' 7) = 1 \<and>
        (\<exists>r. markProofUsed example_crypto c' 1700000020 example_args = Inl r) \<and>
        transact example_crypto c' (1700000020, example_args) = c'"
proof -
  obtain c' where c': "markProofUsed example_crypto deployed 1700000010 example_args = Inr c'"
    using example_mark by blast
  have r: "recover example_crypto (proofHashOf example_crypto example_args)
             (a_signature example_args) = Some 7"
    by (simp add: example_crypto_def example_args_def)
  have z: "unat (nonces deployed 7) = 0" by (simp add: deployed_def)
  from markProofUsed_commits_once [OF c'] r z
  have "usedProofs c' (proofHashOf example_crypto example_args)"
    and "unat (nonces c' 7) = 1"
    and "\<forall>calls now'.
            (\<exists>r. markProofUsed example_crypto (transact_all example_crypto c' calls) now'
                   example_args = Inl r) \<and>
            transact example_crypto (transact_all example_crypto c' calls) (now', example_args) =
              transact_all example_crypto c' calls"
    by auto
  from this(1,2) this(3) [rule_format, of "[]" 1700000020] c' show ?thesis
    by (auto simp: transact_all_def)
qed

section \<open>The client's single retry\<close>

lemma pay_and_retry_cases:
  "(\<exists>e. pay_and_retry pay network v = (Inl e, [Request None])) \<or>
   (\<exists>e c. pay_and_retry pay network v = (Inl e, [Request None, Pay c])) \<or>
   (\<exists>c proof. pay c = Inr proof \<and>
       pay_and_retry pay network v =
         (Inr (network 1 (Some proof)), [Request None, Pay c, Request (Some proof)]))"
proof (cases v)
  case (JStr c)
  show ?thesis
  proof (cases "c = []")
    case True
    with JStr show ?thesis by (simp add: pay_and_retry_def)
  next
    case False
    with JStr show ?thesis by (cases "pay c") (simp_all add: pay_and_retry_def)
  qed
qed (simp_all add: pay_and_retry_def)

lemma fetch_cases:
  "X402Client_fetch autoRetry pay network = (Inr (network 0 None), [Request None]) \<or>
   (\<exists>e. X402Client_fetch autoRetry pay network = (Inl e, [Request None])) \<or>
   (\<exists>e c. X402Client_fetch autoRetry pay network = (Inl e, [Request None, Pay c])) \<or>
   (\<exists>c proof. pay c = Inr proof \<and>
       X402Client_fetch autoRetry pay network =
         (Inr (network 1 (Some proof)), [Request None, Pay c, Request (Some proof)]))"
proof (cases "status (network 0 None) = 402 \<and> autoRetry")
  case False
  then have "X402Client_fetch autoRetry pay network = (Inr (network 0 None), [Request None])"
    by (simp only: X402Client_fetch_def Let_def if_False)
  then show ?thesis by simp
next
  case retry: True
  show ?thesis
  proof (cases "body (network 0 None)")
    case None
    with retry show ?thesis by (simp add: X402Client_fetch_def Let_def)
  next
    case (Some b)
    with retry obtain v where
      "X402Client_fetch autoRetry pay network = pay_and_retry pay network v"
      by (simp add: X402Client_fetch_def Let_def)
    then show ?thesis using pay_and_retry_cases [of pay network v] by simp
  qed
qed

text \<open>
  When the first answer is a 402 with a challenge and the payment succeeds, the answer to
  the one retry is what \<^verbatim>\<open>fetch\<close> returns, also when it is again a 402.
\<close>

lemma fetch_second_402_returned:
  assumes "status (network 0 None) = 402" and "body (network 0 None) = Some b"
      and "getProp b ''challenge'' = JStr c" and "c \<noteq> []" and "pay c = Inr proof"
      and "status (network 1 (Some proof)) = 402"
  shows "X402Client_fetch True pay network =
           (Inr (network 1 (Some proof)), [Request None, Pay c, Request (Some proof)])"
  using assms by (simp add: X402Client_fetch_def pay_and_retry_def Let_def)

text \<open>
  C9. Whatever the network answers and whatever the payment does, one call of
  \<^verbatim>\<open>fetch\<close> sends the request, or sends it and pays, or sends it, pays and sends it once
  more with the proof, and then returns the answer to that second request as it is: at most
  two requests and at most one payment, so a 402 answer to the retry starts no further
  payment and no further retry.
\<close>

theorem fetch_retries_at_most_once:
  "(snd (X402Client_fetch autoRetry pay network) = [Request None] \<or>
    (\<exists>c. snd (X402Client_fetch autoRetry pay network) = [Request None, Pay c]) \<or>
    (\<exists>c proof. pay c = Inr proof \<and>
       X402Client_fetch autoRetry pay network =
         (Inr (network 1 (Some proof)), [Request None, Pay c, Request (Some proof)]))) \<and>
   requests (snd (X402Client_fetch autoRetry pay network)) \<le> 2 \<and>
   payments (snd (X402Client_fetch autoRetry pay network)) \<le> 1"
  using fetch_cases [of autoRetry pay network]
  by (elim disjE exE conjE) (simp_all add: requests_def payments_def)

end
